theory Spec2Isabelle
  imports Main "HOL-Library.Word" "HOL-Library.Sublist"
begin

section \<open>JavaScript strings\<close>

text \<open>
  A JavaScript string is a sequence of UTF-16 code units. String literals of the source
  that consist of ASCII characters are written \<open>str ''...''\<close>.
\<close>

type_synonym code_unit = "16 word"
type_synonym jsstring = "code_unit list"

definition str :: "string \<Rightarrow> jsstring" where
  "str s = map of_char s"

abbreviation LF :: code_unit where
  "LF \<equiv> 0x0A"

text \<open>
  \<open>Boolean(s)\<close> for a string, also the test made by \<open>s || d\<close>, \<open>!s\<close> and
  \<open>filter(Boolean)\<close>: only the empty string is falsy.
\<close>

definition truthy :: "jsstring \<Rightarrow> bool" where
  "truthy s \<longleftrightarrow> s \<noteq> []"

text \<open>\<open>a || b\<close> on strings.\<close>

definition or_else :: "jsstring \<Rightarrow> jsstring \<Rightarrow> jsstring" where
  "or_else a b = (if truthy a then a else b)"

text \<open>
  The code units \<open>String.prototype.trim\<close> strips: ECMAScript's WhiteSpace and
  LineTerminator productions (TAB, LF, VT, FF, CR, SP, NBSP, U+1680, U+2000..U+200A,
  U+2028, U+2029, U+202F, U+205F, U+3000, U+FEFF).
\<close>

definition isWhiteSpace :: "code_unit \<Rightarrow> bool" where
  "isWhiteSpace c \<longleftrightarrow>
     c = 0x09 \<or> c = 0x0A \<or> c = 0x0B \<or> c = 0x0C \<or> c = 0x0D \<or> c = 0x20 \<or> c = 0xA0 \<or>
     c = 0x1680 \<or> (0x2000 \<le> c \<and> c \<le> 0x200A) \<or> c = 0x2028 \<or> c = 0x2029 \<or>
     c = 0x202F \<or> c = 0x205F \<or> c = 0x3000 \<or> c = 0xFEFF"

definition trim :: "jsstring \<Rightarrow> jsstring" where
  "trim s = rev (dropWhile isWhiteSpace (rev (dropWhile isWhiteSpace s)))"

text \<open>
  \<open>s.split(/\n+/)\<close>: the piece before the next line feed, then the split of what follows
  the whole run of line feeds that starts there (\<open>\n+\<close> is greedy); the rest of the string,
  empty or not, is the last piece. The empty string gives one empty piece.
\<close>

function splitNewlines :: "jsstring \<Rightarrow> jsstring list" where
  "splitNewlines s =
     (case dropWhile (\<lambda>c. c \<noteq> LF) s of
        [] \<Rightarrow> [s]
      | _ # rest \<Rightarrow>
          takeWhile (\<lambda>c. c \<noteq> LF) s # splitNewlines (dropWhile (\<lambda>c. c = LF) rest))"
  by pat_completeness auto
termination
proof (relation "measure length")
  show "wf (measure (length :: jsstring \<Rightarrow> nat))"
    by simp
next
  fix s :: jsstring and x rest
  assume d: "dropWhile (\<lambda>c. c \<noteq> LF) s = x # rest"
  have "length (dropWhile (\<lambda>c. c = LF) rest) \<le> length rest"
    by (rule length_dropWhile_le)
  moreover have "length (x # rest) \<le> length s"
    unfolding d [symmetric] by (rule length_dropWhile_le)
  ultimately show "(dropWhile (\<lambda>c. c = LF) rest, s) \<in> measure length"
    by simp
qed

declare splitNewlines.simps [simp del]

text \<open>
  \<open>String.prototype.toUpperCase\<close> on strings of ASCII code units. Its only receiver in
  the source is a \<open>DocumentType\<close>, \<open>'docx'\<close> or \<open>'pptx'\<close>.
\<close>

definition toUpperCase :: "jsstring \<Rightarrow> jsstring" where
  "toUpperCase s = map (\<lambda>c. if 0x61 \<le> c \<and> c \<le> 0x7A then c - 0x20 else c) s"

text \<open>\<open>n.toString()\<close> and \<open>String(n)\<close> for a natural number: its decimal digits.\<close>

fun toStringNat :: "nat \<Rightarrow> jsstring" where
  "toStringNat n =
     (if n < 10 then [of_nat (48 + n)]
      else toStringNat (n div 10) @ [of_nat (48 + n mod 10)])"

declare toStringNat.simps [simp del]


section \<open>The project store's data model\<close>

text \<open>
  \<open>new Date(...)\<close> is kept symbolic: \<open>DateAt t\<close> is \<open>new Date()\<close> read at clock value
  \<open>t\<close> (milliseconds, as \<open>Date.now()\<close>), \<open>DateOf s\<close> is \<open>new Date(s)\<close> for a string
  and \<open>DateOf None\<close> is \<open>new Date(undefined)\<close>.
\<close>

datatype JsDate = DateAt nat | DateOf "jsstring option"

datatype DocumentType = Docx | Pptx

fun docTypeString :: "DocumentType \<Rightarrow> jsstring" where
  "docTypeString Docx = str ''docx''"
| "docTypeString Pptx = str ''pptx''"

record Revision =
  revision_id :: jsstring
  revision_content :: jsstring
  revision_prompt :: jsstring
  revision_timestamp :: JsDate

record Comment =
  comment_id :: jsstring
  comment_text :: jsstring
  comment_timestamp :: JsDate

record Section =
  section_id :: jsstring
  section_title :: jsstring
  section_content :: jsstring
  section_order :: nat
  section_revisions :: "Revision list"
  section_comments :: "Comment list"
  section_liked :: "bool option"

text \<open>
  The interface \<open>Project\<close> declares \<open>sections: Section[]\<close>. \<open>addProject\<close> stores the
  server's object as it is when its \<open>sections\<close> is not an array, and \<open>setCurrentProject\<close>
  tests \<open>project.sections &&\<close>, so the field is kept optional: \<open>None\<close> is a
  \<open>sections\<close> that is \<open>undefined\<close>.
\<close>

record Project =
  project_id :: jsstring
  project_title :: jsstring
  project_docType :: DocumentType
  project_topic :: jsstring
  project_sections :: "Section list option"
  project_createdAt :: JsDate
  project_updatedAt :: JsDate


section \<open>The export deck\<close>

datatype Template = Template (template_name: jsstring) (template_description: "jsstring option")

text \<open>
  A slide descriptor: \<open>{type: 'title', title, subtitle, images}\<close> or
  \<open>{type: 'summary', title, bullets, notes}\<close>.
\<close>

datatype Slide =
    TitleSlide jsstring jsstring "jsstring list"
  | SummarySlide jsstring "jsstring list" jsstring

text \<open>\<open>deck_template = None\<close> is the \<open>{}\<close> of \<open>selectedTemplate || {}\<close>.\<close>

record DeckModel =
  deck_title :: jsstring
  deck_author :: jsstring
  deck_template :: "Template option"
  deck_slides :: "Slide list"

text \<open>
  \<open>handleExport\<close>, the body of its loop over the sections:
  \<open>paras = content.split(/\n+/).map(p => p.trim()).filter(Boolean)\<close>,
  \<open>bullets = paras.slice(0, 6)\<close>, with \<open>content = s.content || ''\<close>.
\<close>

definition paras :: "jsstring \<Rightarrow> jsstring list" where
  "paras content = filter truthy (map trim (splitNewlines content))"

definition bullets :: "jsstring \<Rightarrow> jsstring list" where
  "bullets content = take 6 (paras content)"

definition summarySlide :: "Section \<Rightarrow> Slide" where
  "summarySlide s =
     SummarySlide (section_title s) (bullets (or_else (section_content s) [])) []"

definition titleSlide :: "Project \<Rightarrow> Slide" where
  "titleSlide p =
     TitleSlide (project_title p) (toUpperCase (docTypeString (project_docType p))) []"

text \<open>
  The deck \<open>handleExport\<close> builds before it posts anything, from \<open>currentProject\<close>
  (here \<open>current\<close>) and \<open>selectedTemplate\<close>. \<open>for (const s of currentProject.sections)\<close>
  throws a TypeError when \<open>sections\<close> is undefined: \<open>None\<close>.
\<close>

definition buildDeck :: "Project \<Rightarrow> Template option \<Rightarrow> DeckModel option" where
  "buildDeck current selectedTemplate =
     (case project_sections current of
        None \<Rightarrow> None
      | Some sections \<Rightarrow>
          Some \<lparr>deck_title = project_title current,
                deck_author = project_title current,
                deck_template = selectedTemplate,
                deck_slides = titleSlide current # map summarySlide sections\<rparr>)"


section \<open>The API client\<close>

datatype Method = GET | POST | DELETE

text \<open>
  \<open>Omit<Project, 'id' | 'createdAt' | 'updatedAt'>\<close>, the argument of \<open>addProject\<close>
  and the body it posts.
\<close>

record NewProject =
  new_title :: jsstring
  new_docType :: DocumentType
  new_topic :: jsstring
  new_sections :: "Section list option"

text \<open>
  The bodies the modelled calls send: none, the new project, \<open>{section_id, text}\<close>,
  \<open>{sectionId, prompt}\<close>, the deck, and \<open>{format: 'docx', clientSections}\<close> with
  \<open>{id, title, content}\<close> for every section.
\<close>

datatype Body =
    NoBody
  | ProjectBody NewProject
  | CommentBody jsstring jsstring
  | RefineBody jsstring jsstring
  | DeckBody DeckModel
  | DocxExportBody "(jsstring \<times> jsstring \<times> jsstring) list"

record Request =
  req_method :: Method
  req_url :: jsstring
  req_body :: Body

text \<open>The promise of an \<open>api\<close> call once settled.\<close>

datatype 'a Response = Rejected | Resolved 'a

record User =
  user_id :: jsstring
  user_email :: jsstring
  user_name :: jsstring

record AuthState =
  auth_user :: "User option"
  auth_token :: "jsstring option"
  auth_isAuthenticated :: bool
  auth_useMockMode :: bool

text \<open>
  The part of an axios request configuration the interceptor reads and writes; every other
  field travels in the record's extension. \<open>None\<close> is a configuration without
  \<open>headers\<close>.
\<close>

record AxiosRequestConfig =
  config_headers :: "(jsstring \<rightharpoonup> jsstring) option"

text \<open>
  \<open>api.interceptors.request.use\<close>: \<open>if (token && config.headers)
  config.headers.Authorization = `Bearer ${token}`\<close>, then \<open>return config\<close>.
\<close>

definition requestInterceptor ::
  "AuthState \<Rightarrow> 'a AxiosRequestConfig_scheme \<Rightarrow> 'a AxiosRequestConfig_scheme" where
  "requestInterceptor authState config =
     (case auth_token authState of
        None \<Rightarrow> config
      | Some token \<Rightarrow>
          (case config_headers config of
             None \<Rightarrow> config
           | Some headers \<Rightarrow>
               if truthy token
               then config\<lparr>config_headers :=
                      Some (headers(str ''Authorization'' \<mapsto> str ''Bearer '' @ token))\<rparr>
               else config))"


section \<open>Objects of the server's responses\<close>

text \<open>
  \<open>res.data\<close> is untyped. The records below give it the shape of the interfaces, loose in
  the places the store normalises: an id is a number or a string, \<open>sections\<close> is an array
  or not (\<open>None\<close>), \<open>revisions\<close> and \<open>comments\<close> are arrays or missing, and the
  timestamps come as \<open>created_at\<close> or \<open>createdAt\<close>.
\<close>

datatype JsId = IdNum nat | IdStr jsstring

text \<open>\<open>String(id)\<close>.\<close>

fun String :: "JsId \<Rightarrow> jsstring" where
  "String (IdNum n) = toStringNat n"
| "String (IdStr s) = s"

record SectionWire =
  sw_id :: JsId
  sw_title :: jsstring
  sw_content :: jsstring
  sw_order :: nat
  sw_revisions :: "Revision list option"
  sw_comments :: "Comment list option"
  sw_liked :: "bool option"

record ProjectWire =
  pw_id :: JsId
  pw_title :: jsstring
  pw_docType :: DocumentType
  pw_topic :: jsstring
  pw_sections :: "SectionWire list option"
  pw_created_at :: "jsstring option"
  pw_createdAt :: "jsstring option"
  pw_updated_at :: "jsstring option"
  pw_updatedAt :: "jsstring option"

text \<open>\<open>a || b\<close> on two values that are strings or undefined.\<close>

definition or_undefined :: "jsstring option \<Rightarrow> jsstring option \<Rightarrow> jsstring option" where
  "or_undefined a b = (case a of None \<Rightarrow> b | Some s \<Rightarrow> if truthy s then a else b)"

text \<open>\<open>xs || []\<close> on an array or undefined: an array is always truthy.\<close>

definition or_empty :: "'a list option \<Rightarrow> 'a list" where
  "or_empty xs = (case xs of None \<Rightarrow> [] | Some ys \<Rightarrow> ys)"

text \<open>
  \<open>(s: any) => ({ ...s, id: String(s.id), revisions: s.revisions || [],
  comments: s.comments || [] })\<close>, the same in \<open>addProject\<close>, \<open>setCurrentProject\<close> and
  \<open>loadProjects\<close>.
\<close>

definition normalizeSection :: "SectionWire \<Rightarrow> Section" where
  "normalizeSection s =
     \<lparr>section_id = String (sw_id s),
      section_title = sw_title s,
      section_content = sw_content s,
      section_order = sw_order s,
      section_revisions = or_empty (sw_revisions s),
      section_comments = or_empty (sw_comments s),
      section_liked = sw_liked s\<rparr>"

text \<open>
  \<open>addProject\<close>'s normalisation of \<open>created\<close>: the sections are mapped only
  \<open>if (Array.isArray(created.sections))\<close> and are left as they are otherwise.
\<close>

definition normalizeCreated :: "ProjectWire \<Rightarrow> Project" where
  "normalizeCreated created =
     \<lparr>project_id = String (pw_id created),
      project_title = pw_title created,
      project_docType = pw_docType created,
      project_topic = pw_topic created,
      project_sections = map_option (map normalizeSection) (pw_sections created),
      project_createdAt = DateOf (or_undefined (pw_created_at created) (pw_createdAt created)),
      project_updatedAt = DateOf (or_undefined (pw_updated_at created) (pw_updatedAt created))\<rparr>"

text \<open>
  The normalisation of \<open>setCurrentProject\<close> and \<open>loadProjects\<close>:
  \<open>sections: Array.isArray(p.sections) ? p.sections.map(...) : []\<close>.
\<close>

definition normalizeFetched :: "ProjectWire \<Rightarrow> Project" where
  "normalizeFetched data =
     \<lparr>project_id = String (pw_id data),
      project_title = pw_title data,
      project_docType = pw_docType data,
      project_topic = pw_topic data,
      project_sections =
        Some (case pw_sections data of None \<Rightarrow> [] | Some ss \<Rightarrow> map normalizeSection ss),
      project_createdAt = DateOf (or_undefined (pw_created_at data) (pw_createdAt data)),
      project_updatedAt = DateOf (or_undefined (pw_updated_at data) (pw_updatedAt data))\<rparr>"


section \<open>The project store\<close>

record ProjectState =
  projects :: "Project list"
  currentProject :: "Project option"

text \<open>
  What a store action leaves behind: the store, the \<open>api\<close> calls it made, the messages
  of its \<open>console.error\<close> calls, and whether a TypeError left the action.
\<close>

record Effects =
  eff_state :: ProjectState
  eff_requests :: "Request list"
  eff_console :: "jsstring list"
  eff_thrown :: bool

text \<open>The template string \<open>`/api/projects/${id}`\<close>.\<close>

definition projectUrl :: "jsstring \<Rightarrow> jsstring" where
  "projectUrl id' = str ''/api/projects/'' @ id'"

text \<open>
  \<open>addProject\<close> awaits the call and only then appends. \<open>state\<close> is the store when the
  call settles, the argument of \<open>set((state) => ...)\<close>; the first component is the
  value the promise of \<open>addProject\<close> resolves to, \<open>None\<close> for \<open>null\<close>.
\<close>

definition addProject ::
  "ProjectState \<Rightarrow> NewProject \<Rightarrow> ProjectWire Response \<Rightarrow> Project option \<times> Effects" where
  "addProject state project res =
     (let request =
            \<lparr>req_method = POST, req_url = str ''/api/projects/'', req_body = ProjectBody project\<rparr>
      in case res of
           Rejected \<Rightarrow>
             (None,
              \<lparr>eff_state = state, eff_requests = [request],
               eff_console = [str ''Failed to create project''], eff_thrown = False\<rparr>)
         | Resolved data \<Rightarrow>
             (let created = normalizeCreated data
              in (Some created,
                  \<lparr>eff_state = state\<lparr>projects := projects state @ [created]\<rparr>,
                   eff_requests = [request], eff_console = [], eff_thrown = False\<rparr>)))"

text \<open>
  \<open>deleteProject\<close>: the filter runs after \<open>await api.delete(...)\<close>, on the store as it is
  then. \<open>state.currentProject?.id === id\<close> is false when there is no current project.
\<close>

definition deleteProject :: "ProjectState \<Rightarrow> jsstring \<Rightarrow> unit Response \<Rightarrow> Effects" where
  "deleteProject state id' res =
     (let request = \<lparr>req_method = DELETE, req_url = projectUrl id', req_body = NoBody\<rparr>
      in case res of
           Rejected \<Rightarrow>
             \<lparr>eff_state = state, eff_requests = [request],
              eff_console = [str ''Failed to delete project''], eff_thrown = False\<rparr>
         | Resolved _ \<Rightarrow>
             \<lparr>eff_state =
                \<lparr>projects = filter (\<lambda>p. project_id p \<noteq> id') (projects state),
                 currentProject =
                   (case currentProject state of
                      None \<Rightarrow> None
                    | Some c \<Rightarrow> if project_id c = id' then None else Some c)\<rparr>,
              eff_requests = [request], eff_console = [], eff_thrown = False\<rparr>)"

text \<open>
  \<open>setCurrentProject\<close>: \<open>null\<close> and a project with populated sections are set at once;
  otherwise the project is fetched, and on failure the project passed in is set.
\<close>

definition setCurrentProject ::
  "ProjectState \<Rightarrow> Project option \<Rightarrow> ProjectWire Response \<Rightarrow> Effects" where
  "setCurrentProject state project res =
     (case project of
        None \<Rightarrow>
          \<lparr>eff_state = state\<lparr>currentProject := None\<rparr>, eff_requests = [],
           eff_console = [], eff_thrown = False\<rparr>
      | Some p \<Rightarrow>
          if (case project_sections p of None \<Rightarrow> False | Some ss \<Rightarrow> 0 < length ss)
          then \<lparr>eff_state = state\<lparr>currentProject := Some p\<rparr>, eff_requests = [],
                eff_console = [], eff_thrown = False\<rparr>
          else
            (let request =
                   \<lparr>req_method = GET, req_url = projectUrl (project_id p), req_body = NoBody\<rparr>
             in case res of
                  Resolved data \<Rightarrow>
                    \<lparr>eff_state = state\<lparr>currentProject := Some (normalizeFetched data)\<rparr>,
                     eff_requests = [request], eff_console = [], eff_thrown = False\<rparr>
                | Rejected \<Rightarrow>
                    \<lparr>eff_state = state\<lparr>currentProject := Some p\<rparr>,
                     eff_requests = [request],
                     eff_console = [str ''Failed to fetch project''], eff_thrown = False\<rparr>))"

text \<open>
  \<open>{ ...p, sections: p.sections.map(f), updatedAt: new Date() }\<close>. Calling \<open>map\<close> on an
  undefined \<open>sections\<close> throws a TypeError: \<open>None\<close>.
\<close>

definition mapSections :: "(Section \<Rightarrow> Section) \<Rightarrow> nat \<Rightarrow> Project \<Rightarrow> Project option" where
  "mapSections f now p =
     (case project_sections p of
        None \<Rightarrow> None
      | Some ss \<Rightarrow> Some (p\<lparr>project_sections := Some (map f ss), project_updatedAt := DateAt now\<rparr>))"

text \<open>
  \<open>state.projects.map((p) => { if (p.id !== projectId) return p; return g(p) })\<close>, where
  \<open>g\<close> may throw: the first throw ends the whole map.
\<close>

fun mapMatching ::
  "jsstring \<Rightarrow> (Project \<Rightarrow> Project option) \<Rightarrow> Project list \<Rightarrow> Project list option" where
  "mapMatching projectId g [] = Some []"
| "mapMatching projectId g (p # ps) =
     (case (if project_id p \<noteq> projectId then Some p else g p) of
        None \<Rightarrow> None
      | Some p' \<Rightarrow>
          (case mapMatching projectId g ps of None \<Rightarrow> None | Some ps' \<Rightarrow> Some (p' # ps')))"

text \<open>
  \<open>Partial<Section>\<close>: \<open>None\<close> is a key that is absent. \<open>applyUpdates s updates\<close> is
  \<open>{ ...s, ...updates }\<close>.
\<close>

record SectionUpdates =
  upd_id :: "jsstring option"
  upd_title :: "jsstring option"
  upd_content :: "jsstring option"
  upd_order :: "nat option"
  upd_revisions :: "Revision list option"
  upd_comments :: "Comment list option"
  upd_liked :: "bool option"

definition noUpdates :: SectionUpdates where
  "noUpdates =
     \<lparr>upd_id = None, upd_title = None, upd_content = None, upd_order = None,
      upd_revisions = None, upd_comments = None, upd_liked = None\<rparr>"

definition applyUpdates :: "Section \<Rightarrow> SectionUpdates \<Rightarrow> Section" where
  "applyUpdates s updates =
     \<lparr>section_id = (case upd_id updates of None \<Rightarrow> section_id s | Some v \<Rightarrow> v),
      section_title = (case upd_title updates of None \<Rightarrow> section_title s | Some v \<Rightarrow> v),
      section_content = (case upd_content updates of None \<Rightarrow> section_content s | Some v \<Rightarrow> v),
      section_order = (case upd_order updates of None \<Rightarrow> section_order s | Some v \<Rightarrow> v),
      section_revisions =
        (case upd_revisions updates of None \<Rightarrow> section_revisions s | Some v \<Rightarrow> v),
      section_comments =
        (case upd_comments updates of None \<Rightarrow> section_comments s | Some v \<Rightarrow> v),
      section_liked = (case upd_liked updates of None \<Rightarrow> section_liked s | Some v \<Rightarrow> Some v)\<rparr>"

text \<open>
  \<open>updateSection\<close>: the same section update on \<open>projects\<close> and, when its id matches, on
  \<open>currentProject\<close>. No \<open>api\<close> call.
\<close>

definition updateSection ::
  "ProjectState \<Rightarrow> jsstring \<Rightarrow> jsstring \<Rightarrow> SectionUpdates \<Rightarrow> nat \<Rightarrow> Effects" where
  "updateSection state projectId sectionId updates now =
     (let f = (\<lambda>s. if section_id s = sectionId then applyUpdates s updates else s);
          thrown = \<lparr>eff_state = state, eff_requests = [], eff_console = [], eff_thrown = True\<rparr>
      in case mapMatching projectId (mapSections f now) (projects state) of
           None \<Rightarrow> thrown
         | Some ps \<Rightarrow>
             (case currentProject state of
                None \<Rightarrow>
                  \<lparr>eff_state = \<lparr>projects = ps, currentProject = None\<rparr>, eff_requests = [],
                   eff_console = [], eff_thrown = False\<rparr>
              | Some c \<Rightarrow>
                  (case (if project_id c = projectId then mapSections f now c else Some c) of
                     None \<Rightarrow> thrown
                   | Some c' \<Rightarrow>
                       \<lparr>eff_state = \<lparr>projects = ps, currentProject = Some c'\<rparr>,
                        eff_requests = [], eff_console = [], eff_thrown = False\<rparr>)))"

text \<open>
  \<open>addRevision\<close>: \<open>content\<close> and \<open>prompt\<close> are the fields of its \<open>revision\<close> argument;
  \<open>now\<close> is the clock, read for \<open>Date.now().toString()\<close> and \<open>new Date()\<close>. Only
  \<open>projects\<close> is set. No \<open>api\<close> call.
\<close>

definition newRevision :: "jsstring \<Rightarrow> jsstring \<Rightarrow> nat \<Rightarrow> Revision" where
  "newRevision content prompt now =
     \<lparr>revision_id = toStringNat now, revision_content = content,
      revision_prompt = prompt, revision_timestamp = DateAt now\<rparr>"

definition addRevision ::
  "ProjectState \<Rightarrow> jsstring \<Rightarrow> jsstring \<Rightarrow> jsstring \<Rightarrow> jsstring \<Rightarrow> nat \<Rightarrow> Effects" where
  "addRevision state projectId sectionId content prompt now =
     (let f = (\<lambda>s. if section_id s = sectionId
                   then s\<lparr>section_revisions :=
                            section_revisions s @ [newRevision content prompt now]\<rparr>
                   else s)
      in case mapMatching projectId (mapSections f now) (projects state) of
           None \<Rightarrow>
             \<lparr>eff_state = state, eff_requests = [], eff_console = [], eff_thrown = True\<rparr>
         | Some ps \<Rightarrow>
             \<lparr>eff_state = state\<lparr>projects := ps\<rparr>, eff_requests = [], eff_console = [],
              eff_thrown = False\<rparr>)"

text \<open>
  \<open>addComment\<close>: the call is started first and not awaited; its failure is only logged.
  The store is set whatever \<open>res\<close>, the outcome of the call, is. Only \<open>projects\<close> is set.
\<close>

definition newComment :: "jsstring \<Rightarrow> nat \<Rightarrow> Comment" where
  "newComment text now =
     \<lparr>comment_id = toStringNat now, comment_text = text, comment_timestamp = DateAt now\<rparr>"

definition addComment ::
  "ProjectState \<Rightarrow> jsstring \<Rightarrow> jsstring \<Rightarrow> jsstring \<Rightarrow> nat \<Rightarrow> unit Response \<Rightarrow> Effects" where
  "addComment state projectId sectionId text now res =
     (let request =
            \<lparr>req_method = POST, req_url = projectUrl projectId @ str ''/comment'',
             req_body = CommentBody sectionId text\<rparr>;
          logged = (case res of Rejected \<Rightarrow> [str ''Failed to persist comment''] | Resolved _ \<Rightarrow> []);
          f = (\<lambda>s. if section_id s = sectionId
                   then s\<lparr>section_comments := section_comments s @ [newComment text now]\<rparr>
                   else s)
      in case mapMatching projectId (mapSections f now) (projects state) of
           None \<Rightarrow>
             \<lparr>eff_state = state, eff_requests = [request], eff_console = logged,
              eff_thrown = True\<rparr>
         | Some ps \<Rightarrow>
             \<lparr>eff_state = state\<lparr>projects := ps\<rparr>, eff_requests = [request],
              eff_console = logged, eff_thrown = False\<rparr>)"

text \<open>\<open>loadProjects\<close> replaces \<open>projects\<close> by the normalised list of the response.\<close>

definition loadProjects :: "ProjectState \<Rightarrow> ProjectWire list Response \<Rightarrow> Effects" where
  "loadProjects state res =
     (let request = \<lparr>req_method = GET, req_url = str ''/api/projects/'', req_body = NoBody\<rparr>
      in case res of
           Rejected \<Rightarrow>
             \<lparr>eff_state = state, eff_requests = [request],
              eff_console = [str ''Failed to load projects''], eff_thrown = False\<rparr>
         | Resolved data \<Rightarrow>
             \<lparr>eff_state = state\<lparr>projects := map normalizeFetched data\<rparr>,
              eff_requests = [request], eff_console = [], eff_thrown = False\<rparr>)"


section \<open>The handlers of the pages\<close>

subsection \<open>Export\<close>

text \<open>
  \<open>(title || fallback).replace(/[^a-z0-9_-]/gi, '_')\<close>: every code unit that is not an
  ASCII letter, a digit, \<open>_\<close> or \<open>-\<close> becomes \<open>_\<close>.
\<close>

definition isFileNameUnit :: "code_unit \<Rightarrow> bool" where
  "isFileNameUnit c \<longleftrightarrow>
     (0x61 \<le> c \<and> c \<le> 0x7A) \<or> (0x41 \<le> c \<and> c \<le> 0x5A) \<or> (0x30 \<le> c \<and> c \<le> 0x39) \<or>
     c = 0x5F \<or> c = 0x2D"

definition fileName :: "jsstring \<Rightarrow> jsstring \<Rightarrow> jsstring" where
  "fileName title fallback =
     map (\<lambda>c. if isFileNameUnit c then c else 0x5F) (or_else title fallback)"

text \<open>
  How a run of \<open>handleExport\<close> ends: at once when there is no current project; in its
  \<open>catch\<close> (\<open>console.error\<close> and \<open>toast.error\<close>) after the calls made so far; or with the
  call made, the name of the file offered for download and the text of \<open>toast.success\<close>.
\<close>

datatype ExportOutcome =
    NotExported
  | ExportFailed "Request list"
  | Exported Request jsstring jsstring

text \<open>
  \<open>handleExport\<close> of the workspace page; \<open>res\<close> settles the one call it makes. The deck is
  built first, whatever the document type; it is posted when the type is \<open>'pptx'\<close>.
\<close>

definition handleExport ::
  "Project option \<Rightarrow> Template option \<Rightarrow> unit Response \<Rightarrow> ExportOutcome" where
  "handleExport current selectedTemplate res =
     (case current of
        None \<Rightarrow> NotExported
      | Some p \<Rightarrow>
          (case buildDeck p selectedTemplate of
             None \<Rightarrow> ExportFailed []
           | Some deck \<Rightarrow>
               if project_docType p = Pptx
               then
                 (let request =
                        \<lparr>req_method = POST, req_url = str ''/api/projects/generate_pptx'',
                         req_body = DeckBody deck\<rparr>
                  in case res of
                       Rejected \<Rightarrow> ExportFailed [request]
                     | Resolved _ \<Rightarrow>
                         Exported request
                           (fileName (project_title p) (str ''presentation'') @ str ''.pptx'')
                           (str ''PPTX generated and downloaded''))
               else
                 (let clientSections =
                        map (\<lambda>s. (section_id s, section_title s, section_content s))
                          (or_empty (project_sections p));
                      request =
                        \<lparr>req_method = POST, req_url = projectUrl (project_id p) @ str ''/export'',
                         req_body = DocxExportBody clientSections\<rparr>
                  in case res of
                       Rejected \<Rightarrow> ExportFailed [request]
                     | Resolved _ \<Rightarrow>
                         Exported request
                           (fileName (project_title p) (str ''document'') @ str ''.docx'')
                           (str ''DOCX generated and downloaded''))))"

subsection \<open>Refinement and project creation\<close>

datatype Toast = ToastSuccess jsstring | ToastError jsstring

text \<open>
  What a handler leaves behind: the store, the \<open>api\<close> calls, the \<open>console.error\<close>
  messages, the toasts and the route it navigates to.
\<close>

record UiEffects =
  ui_state :: ProjectState
  ui_requests :: "Request list"
  ui_console :: "jsstring list"
  ui_toasts :: "Toast list"
  ui_navigate :: "jsstring option"

text \<open>The response of the refine route, \<open>{text, revisionId}\<close>; \<open>text\<close> may be missing.\<close>

record RefineWire =
  rw_text :: "jsstring option"
  rw_revisionId :: "JsId option"

text \<open>
  \<open>handleRefine\<close> of the refinement panel, for the panel's \<open>projectId\<close> and \<open>section\<close>.
  \<open>state\<close> is the store when the call settles; \<open>now\<close> and \<open>now'\<close> are the clock when
  \<open>updateSection\<close> and \<open>addRevision\<close> run. A TypeError from the store lands in the
  handler's \<open>catch\<close>.
\<close>

definition handleRefine ::
  "AuthState \<Rightarrow> ProjectState \<Rightarrow> jsstring \<Rightarrow> Section \<Rightarrow> jsstring \<Rightarrow> RefineWire Response \<Rightarrow>
     nat \<Rightarrow> nat \<Rightarrow> UiEffects" where
  "handleRefine authState state projectId section refinementPrompt res now now' =
     (if \<not> truthy (trim refinementPrompt)
      then \<lparr>ui_state = state, ui_requests = [], ui_console = [],
            ui_toasts = [ToastError (str ''Please enter a refinement prompt'')],
            ui_navigate = None\<rparr>
      else if \<not> (case auth_token authState of None \<Rightarrow> False | Some token \<Rightarrow> truthy token)
      then \<lparr>ui_state = state, ui_requests = [], ui_console = [],
            ui_toasts = [ToastError (str ''You must be logged in to refine content.'')],
            ui_navigate = None\<rparr>
      else
        (let request =
               \<lparr>req_method = POST, req_url = projectUrl projectId @ str ''/refine'',
                req_body = RefineBody (section_id section) refinementPrompt\<rparr>;
             failed = (\<lambda>st. \<lparr>ui_state = st, ui_requests = [request],
                              ui_console = [str ''Refine failed''],
                              ui_toasts = [ToastError (str ''Failed to refine content'')],
                              ui_navigate = None\<rparr>)
         in case res of
              Rejected \<Rightarrow> failed state
            | Resolved out \<Rightarrow>
                (let refined = (case rw_text out of None \<Rightarrow> [] | Some t \<Rightarrow> or_else t []);
                     updated =
                       updateSection state projectId (section_id section)
                         (noUpdates\<lparr>upd_content := Some refined\<rparr>) now
                 in if eff_thrown updated then failed state
                    else
                      (let revised =
                             addRevision (eff_state updated) projectId (section_id section)
                               refined refinementPrompt now'
                       in if eff_thrown revised then failed (eff_state updated)
                          else \<lparr>ui_state = eff_state revised, ui_requests = [request],
                                ui_console = [],
                                ui_toasts = [ToastSuccess (str ''Content refined successfully!'')],
                                ui_navigate = None\<rparr>))))"

text \<open>The state of the creation wizard.\<close>

record WizardSection =
  ws_id :: jsstring
  ws_title :: jsstring

record Wizard =
  wiz_title :: jsstring
  wiz_docType :: DocumentType
  wiz_topic :: jsstring
  wiz_sections :: "WizardSection list"

text \<open>
  \<open>handleCreate\<close>: \<open>validSections = sections.filter((s) => s.title.trim())\<close> and
  \<open>projectSections = validSections.map((s, index) => ...)\<close>.
\<close>

definition validSections :: "WizardSection list \<Rightarrow> WizardSection list" where
  "validSections sections = filter (\<lambda>s. truthy (trim (ws_title s))) sections"

definition projectSections :: "WizardSection list \<Rightarrow> Section list" where
  "projectSections valid =
     map (\<lambda>(index, s).
            \<lparr>section_id = ws_id s, section_title = ws_title s, section_content = [],
             section_order = index, section_revisions = [], section_comments = [],
             section_liked = None\<rparr>)
       (enumerate 0 valid)"

definition handleCreate :: "Wizard \<Rightarrow> ProjectState \<Rightarrow> ProjectWire Response \<Rightarrow> UiEffects" where
  "handleCreate wizard state res =
     (if length (validSections (wiz_sections wizard)) = 0
      then \<lparr>ui_state = state, ui_requests = [], ui_console = [],
            ui_toasts = [ToastError (str ''Please add at least one section'')],
            ui_navigate = None\<rparr>
      else
        (let added =
               addProject state
                 \<lparr>new_title = wiz_title wizard, new_docType = wiz_docType wizard,
                  new_topic = wiz_topic wizard,
                  new_sections = Some (projectSections (validSections (wiz_sections wizard)))\<rparr>
                 res
         in case fst added of
              Some created \<Rightarrow>
                \<lparr>ui_state = eff_state (snd added), ui_requests = eff_requests (snd added),
                 ui_console = eff_console (snd added),
                 ui_toasts = [ToastSuccess (str ''Project created successfully!'')],
                 ui_navigate = Some (str ''/project/'' @ project_id created)\<rparr>
            | None \<Rightarrow>
                \<lparr>ui_state = eff_state (snd added), ui_requests = eff_requests (snd added),
                 ui_console = eff_console (snd added),
                 ui_toasts = [ToastError (str ''Failed to create project'')],
                 ui_navigate = None\<rparr>))"


section \<open>Reference definitions for the deck's bullets\<close>

text \<open>The lines of a string: it is cut at every single line feed.\<close>

fun splitLines :: "jsstring \<Rightarrow> jsstring list" where
  "splitLines [] = [[]]"
| "splitLines (c # cs) =
     (if c = LF then [] # splitLines cs
      else (case splitLines cs of [] \<Rightarrow> [[c]] | l # ls \<Rightarrow> (c # l) # ls))"

text \<open>The lines that are not blank, each trimmed, in their order.\<close>

definition nonBlankLines :: "jsstring \<Rightarrow> jsstring list" where
  "nonBlankLines content = filter truthy (map trim (splitLines content))"

text \<open>
  The specification's wording, "splitting section content on blank-line boundaries": the
  string is cut at every run of two or more line feeds, so a single line feed stays inside
  its paragraph.
\<close>

function spec_splitBlankLines :: "jsstring \<Rightarrow> jsstring list" where
  "spec_splitBlankLines [] = [[]]"
| "spec_splitBlankLines [c] = [[c]]"
| "spec_splitBlankLines (c # d # cs) =
     (if c = LF \<and> d = LF then [] # spec_splitBlankLines (dropWhile (\<lambda>x. x = LF) cs)
      else (case spec_splitBlankLines (d # cs) of
              [] \<Rightarrow> [[c]]
            | p # ps \<Rightarrow> (c # p) # ps))"
  by pat_completeness auto
termination
  by (relation "measure length") (auto simp: le_imp_less_Suc length_dropWhile_le le_SucI)

text \<open>The bullets as the specification words them: the first six such paragraphs.\<close>

definition spec_paragraphBullets :: "jsstring \<Rightarrow> jsstring list" where
  "spec_paragraphBullets content =
     take 6 (filter truthy (map trim (spec_splitBlankLines content)))"


section \<open>Notions used in the statements\<close>

text \<open>
  The store holds what the interface \<open>Project\<close> declares: every project of \<open>projects\<close>,
  and \<open>currentProject\<close>, has a \<open>sections\<close> array.
\<close>

definition sectionsDefined :: "ProjectState \<Rightarrow> bool" where
  "sectionsDefined state \<longleftrightarrow>
     list_all (\<lambda>p. project_sections p \<noteq> None) (projects state) \<and>
     (case currentProject state of None \<Rightarrow> True | Some c \<Rightarrow> project_sections c \<noteq> None)"

text \<open>
  The project \<open>{ ...p, sections: p.sections.map(f), updatedAt: new Date() }\<close>, for a project
  whose \<open>sections\<close> is an array: what \<open>mapSections\<close> returns when it does not throw.
\<close>

definition withSections :: "(Section \<Rightarrow> Section) \<Rightarrow> nat \<Rightarrow> Project \<Rightarrow> Project" where
  "withSections f now p =
     p\<lparr>project_sections := map_option (map f) (project_sections p),
       project_updatedAt := DateAt now\<rparr>"

text \<open>
  \<open>currentProject\<close> mirrors \<open>projects\<close>: the current project, when there is one, is one
  of the projects of the list, equal to it in every field.
\<close>

definition mirrored :: "ProjectState \<Rightarrow> bool" where
  "mirrored state \<longleftrightarrow>
     (case currentProject state of None \<Rightarrow> True | Some c \<Rightarrow> c \<in> set (projects state))"

text \<open>
  A stored section comes from a section of a response: its id is the string of the
  response's id, and its revisions and comments are the response's arrays, or empty
  arrays where the response has none.
\<close>

definition normalisedFrom :: "SectionWire \<Rightarrow> Section \<Rightarrow> bool" where
  "normalisedFrom w s \<longleftrightarrow>
     section_id s = String (sw_id w) \<and>
     section_revisions s = (case sw_revisions w of None \<Rightarrow> [] | Some rs \<Rightarrow> rs) \<and>
     section_comments s = (case sw_comments w of None \<Rightarrow> [] | Some cs \<Rightarrow> cs)"


section \<open>Example values\<close>

definition eightLines :: jsstring where
  "eightLines =
     str ''a'' @ [LF] @ str '' b '' @ [LF, LF] @ str ''c'' @ [LF] @ str ''d'' @ [LF, LF, LF] @
     str ''e'' @ [LF] @ str ''f'' @ [LF] @ str ''g'' @ [LF] @ str ''h'' @ [LF]"

definition blankContent :: jsstring where
  "blankContent = str ''  '' @ [LF, 0x09, LF] @ str '' ''"

definition introSection :: Section where
  "introSection =
     \<lparr>section_id = str ''s1'', section_title = str ''Introduction'',
      section_content = eightLines, section_order = 0, section_revisions = [],
      section_comments = [], section_liked = None\<rparr>"

definition emptyProject :: Project where
  "emptyProject =
     \<lparr>project_id = str ''7'', project_title = str ''T'', project_docType = Pptx,
      project_topic = str ''x'', project_sections = Some [],
      project_createdAt = DateOf (Some (str ''2025-01-15'')),
      project_updatedAt = DateOf (Some (str ''2025-01-15''))\<rparr>"

definition introWire :: SectionWire where
  "introWire =
     \<lparr>sw_id = IdNum 12, sw_title = str ''Introduction'', sw_content = [], sw_order = 0,
      sw_revisions = None, sw_comments = None, sw_liked = None\<rparr>"

definition createdWire :: ProjectWire where
  "createdWire =
     \<lparr>pw_id = IdNum 42, pw_title = str ''Report'', pw_docType = Docx, pw_topic = str ''x'',
      pw_sections = Some [introWire], pw_created_at = Some (str ''2025-01-15''),
      pw_createdAt = None, pw_updated_at = Some (str ''2025-01-16''), pw_updatedAt = None\<rparr>"

definition reportProject :: Project where
  "reportProject =
     \<lparr>project_id = str ''42'', project_title = str ''Report'', project_docType = Docx,
      project_topic = str ''x'',
      project_sections = Some [introSection, introSection\<lparr>section_id := str ''s2''\<rparr>],
      project_createdAt = DateOf (Some (str ''2025-01-15'')),
      project_updatedAt = DateOf (Some (str ''2025-01-16''))\<rparr>"

definition listedWire :: ProjectWire where
  "listedWire = createdWire\<lparr>pw_sections := None\<rparr>"

definition initialStore :: ProjectState where
  "initialStore = \<lparr>projects = [], currentProject = None\<rparr>"

text \<open>
  The store once the dashboard has loaded a list whose project comes without sections and
  the project has been opened, which fetches it in full.
\<close>

definition openedStore :: ProjectState where
  "openedStore =
     eff_state
       (setCurrentProject (eff_state (loadProjects initialStore (Resolved [listedWire])))
          (Some (normalizeFetched listedWire)) (Resolved createdWire))"

definition twoProjects :: ProjectState where
  "twoProjects = \<lparr>projects = [emptyProject, reportProject], currentProject = Some reportProject\<rparr>"

definition likedUpdate :: SectionUpdates where
  "likedUpdate = noUpdates\<lparr>upd_liked := Some True\<rparr>"

definition reportDraft :: NewProject where
  "reportDraft =
     \<lparr>new_title = str ''Report'', new_docType = Docx, new_topic = str ''x'',
      new_sections = Some [introSection]\<rparr>"

definition loggedIn :: AuthState where
  "loggedIn =
     \<lparr>auth_user = Some \<lparr>user_id = str ''1'', user_email = str ''a@x.com'', user_name = str ''Alice''\<rparr>,
      auth_token = Some (str ''jwt''), auth_isAuthenticated = True, auth_useMockMode = False\<rparr>"

definition refineReply :: RefineWire where
  "refineReply = \<lparr>rw_text = Some (str ''new''), rw_revisionId = Some (IdNum 3)\<rparr>"

definition emptyTokenAuth :: AuthState where
  "emptyTokenAuth =
     \<lparr>auth_user = None, auth_token = Some [], auth_isAuthenticated = True,
      auth_useMockMode = False\<rparr>"

definition jsonConfig :: AxiosRequestConfig where
  "jsonConfig =
     \<lparr>config_headers = Some [str ''Content-Type'' \<mapsto> str ''application/json'']\<rparr>"

definition outline :: "WizardSection list" where
  "outline =
     [\<lparr>ws_id = str ''1'', ws_title = str ''Introduction''\<rparr>,
      \<lparr>ws_id = str ''2'', ws_title = str ''  ''\<rparr>,
      \<lparr>ws_id = str ''3'', ws_title = str '' Results''\<rparr>]"

definition blankWizard :: Wizard where
  "blankWizard =
     \<lparr>wiz_title = str ''Report'', wiz_docType = Docx, wiz_topic = str ''x'',
      wiz_sections = [\<lparr>ws_id = str ''2'', ws_title = str ''  ''\<rparr>]\<rparr>"

definition reportWizard :: Wizard where
  "reportWizard =
     \<lparr>wiz_title = str ''Report'', wiz_docType = Docx, wiz_topic = str ''x'',
      wiz_sections = outline\<rparr>"


section \<open>The bullets of a summary slide\<close>

lemma splitLines_not_Nil: "splitLines s \<noteq> []"
  by (induction s) (auto split: list.splits)

lemma splitLines_no_LF: "LF \<notin> set a \<Longrightarrow> splitLines a = [a]"
  by (induction a) auto

lemma splitLines_append_LF: "LF \<notin> set a \<Longrightarrow> splitLines (a @ LF # r) = a # splitLines r"
  by (induction a) auto

lemma trim_Nil: "trim [] = []"
  by (simp add: trim_def)

lemma nonBlankLines_dropWhile_LF:
  "nonBlankLines (dropWhile (\<lambda>c. c = LF) r) = nonBlankLines r"
  by (induction r) (auto simp: nonBlankLines_def trim_Nil truthy_def)

lemma paras_eq_nonBlankLines: "paras s = nonBlankLines s"
proof (induction s rule: splitNewlines.induct)
  case (1 s)
  show ?case
  proof (cases "dropWhile (\<lambda>c. c \<noteq> LF) s")
    case Nil
    then have "LF \<notin> set s"
      by auto
    moreover have "splitNewlines s = [s]"
      by (subst splitNewlines.simps) (simp add: Nil)
    ultimately show ?thesis
      by (simp add: paras_def nonBlankLines_def splitLines_no_LF)
  next
    case (Cons x rest)
    have x: "x = LF"
      using hd_dropWhile [of "\<lambda>c. c \<noteq> LF" s] Cons by auto
    have s: "s = takeWhile (\<lambda>c. c \<noteq> LF) s @ LF # rest"
      using takeWhile_dropWhile_id [of "\<lambda>c. c \<noteq> LF" s] Cons x by simp
    have no: "LF \<notin> set (takeWhile (\<lambda>c. c \<noteq> LF) s)"
      by (auto dest: set_takeWhileD)
    have "splitLines s = takeWhile (\<lambda>c. c \<noteq> LF) s # splitLines rest"
      using splitLines_append_LF [OF no, of rest] s by simp
    moreover have "paras (dropWhile (\<lambda>c. c = LF) rest) = nonBlankLines rest"
      using 1 [OF Cons] by (simp add: nonBlankLines_dropWhile_LF)
    moreover have "splitNewlines s =
        takeWhile (\<lambda>c. c \<noteq> LF) s # splitNewlines (dropWhile (\<lambda>c. c = LF) rest)"
      by (subst splitNewlines.simps) (simp add: Cons)
    ultimately show ?thesis
      by (simp add: paras_def nonBlankLines_def)
  qed
qed

lemma splitLines_subset: "l \<in> set (splitLines s) \<Longrightarrow> set l \<subseteq> set s"
proof (induction s arbitrary: l)
  case Nil
  then show ?case by simp
next
  case (Cons c cs)
  show ?case
  proof (cases "splitLines cs")
    case Nil
    then show ?thesis
      using Cons.prems by (auto split: if_splits)
  next
    case ls: (Cons a as)
    have "set a \<subseteq> set cs"
      using Cons.IH [of a] ls by simp
    moreover have "set l' \<subseteq> set cs" if "l' \<in> set as" for l'
      using Cons.IH [of l'] ls that by simp
    ultimately show ?thesis
      using Cons.prems ls by (auto split: if_splits)
  qed
qed

lemma trim_whitespace:
  assumes "list_all isWhiteSpace l"
  shows "trim l = []"
proof -
  have d: "dropWhile isWhiteSpace l = []"
    using assms unfolding list_all_iff dropWhile_eq_Nil_conv .
  show ?thesis
    unfolding trim_def d by simp
qed

lemma nonBlankLines_whitespace:
  assumes "list_all isWhiteSpace s"
  shows "nonBlankLines s = []"
proof -
  have "trim l = []" if "l \<in> set (splitLines s)" for l
    using splitLines_subset [OF that] assms by (intro trim_whitespace) (auto simp: list_all_iff)
  then show ?thesis
    by (auto simp: nonBlankLines_def filter_empty_conv truthy_def)
qed


text \<open>
  C1, as the specification words it, takes a paragraph to end at a blank line. The code
  cuts at every line feed: the two lines of \<open>a\nb\<close> give two bullets, where the wording
  gives the single paragraph \<open>a\nb\<close>.
\<close>

theorem bullets_blank_line_counterexample:
  "bullets (str ''a'' @ [LF] @ str ''b'') = [str ''a'', str ''b''] \<and>
   spec_paragraphBullets (str ''a'' @ [LF] @ str ''b'') = [str ''a'' @ [LF] @ str ''b''] \<and>
   bullets (str ''a'' @ [LF] @ str ''b'') \<noteq> spec_paragraphBullets (str ''a'' @ [LF] @ str ''b'')"
  by (simp add: bullets_def paras_def spec_paragraphBullets_def trim_def truthy_def
      isWhiteSpace_def splitNewlines.simps str_def)

text \<open>
  C1, amended: the bullets of a section's summary slide are the first \<open>min n 6\<close> of the
  \<open>n\<close> non-blank lines of the section's content, each trimmed, in their order: the content
  is cut at every run of one or more line feeds, not only at blank lines. Content with
  eight non-blank lines gives six bullets, and content that is empty or all white space
  gives none.
\<close>

theorem summary_bullets_first_six_lines:
  "summarySlide s = SummarySlide (section_title s) (bullets (section_content s)) [] \<and>
   bullets content = take (min (length (nonBlankLines content)) 6) (nonBlankLines content) \<and>
   length (bullets content) = min (length (nonBlankLines content)) 6 \<and>
   (length (nonBlankLines content) = 8 \<longrightarrow> length (bullets content) = 6) \<and>
   (list_all isWhiteSpace content \<longrightarrow> bullets content = [])"
proof -
  have slide: "summarySlide s = SummarySlide (section_title s) (bullets (section_content s)) []"
    by (simp add: summarySlide_def or_else_def truthy_def)
  have b: "bullets content = take 6 (nonBlankLines content)"
    by (simp add: bullets_def paras_eq_nonBlankLines)
  have blank: "bullets content = []" if "list_all isWhiteSpace content"
    using nonBlankLines_whitespace [OF that] by (simp add: b)
  show ?thesis
    using slide blank by (simp add: b min_def)
qed

theorem summary_bullets_first_six_lines_witness:
  "length (nonBlankLines eightLines) = 8 \<and>
   summarySlide introSection =
     SummarySlide (str ''Introduction'')
       [str ''a'', str ''b'', str ''c'', str ''d'', str ''e'', str ''f''] [] \<and>
   list_all isWhiteSpace blankContent \<and> bullets blankContent = []"
proof -
  have l: "nonBlankLines eightLines =
      [str ''a'', str ''b'', str ''c'', str ''d'', str ''e'', str ''f'', str ''g'', str ''h'']"
    by (simp add: eightLines_def nonBlankLines_def str_def trim_def truthy_def isWhiteSpace_def)
  have w: "list_all isWhiteSpace blankContent"
    by (simp add: blankContent_def str_def isWhiteSpace_def)
  have "summarySlide introSection =
      SummarySlide (str ''Introduction'') (take 6 (nonBlankLines eightLines)) []"
    using summary_bullets_first_six_lines [of introSection eightLines]
    by (simp add: l introSection_def)
  moreover have "bullets blankContent = []"
    using summary_bullets_first_six_lines [of introSection blankContent] w by blast
  ultimately show ?thesis
    using w by (simp add: l)
qed


section \<open>The slides of the deck\<close>

text \<open>
  C2: the deck built for a project whose \<open>sections\<close> is an array, as the interface
  \<open>Project\<close> declares, has the title slide first, with the project's title and the
  upper-cased document type as subtitle, and then one summary slide per section, in order.
  With no sections it is the title slide alone, and the PPTX export of such a deck ends
  with the download and the success toast once the server has answered the call.
\<close>

theorem deck_is_title_slide_and_one_slide_per_section:
  assumes "project_sections p = Some ss"
  shows "\<exists>deck. buildDeck p t = Some deck \<and>
           deck_slides deck =
             TitleSlide (project_title p) (toUpperCase (docTypeString (project_docType p))) []
               # map summarySlide ss \<and>
           toUpperCase (docTypeString (project_docType p)) =
             (case project_docType p of Docx \<Rightarrow> str ''DOCX'' | Pptx \<Rightarrow> str ''PPTX'') \<and>
           length (deck_slides deck) = 1 + length ss \<and>
           (ss = [] \<longrightarrow>
              deck_slides deck =
                [TitleSlide (project_title p) (toUpperCase (docTypeString (project_docType p))) []]) \<and>
           (project_docType p = Pptx \<longrightarrow>
              handleExport (Some p) t (Resolved ()) =
                Exported
                  \<lparr>req_method = POST, req_url = str ''/api/projects/generate_pptx'',
                   req_body = DeckBody deck\<rparr>
                  (fileName (project_title p) (str ''presentation'') @ str ''.pptx'')
                  (str ''PPTX generated and downloaded''))"
  using assms
  by (cases "project_docType p")
    (simp_all add: buildDeck_def titleSlide_def handleExport_def toUpperCase_def str_def)

theorem deck_of_empty_project_witness:
  "project_sections emptyProject = Some [] \<and>
   buildDeck emptyProject None =
     Some \<lparr>deck_title = str ''T'', deck_author = str ''T'', deck_template = None,
           deck_slides = [TitleSlide (str ''T'') (str ''PPTX'') []]\<rparr> \<and>
   handleExport (Some emptyProject) None (Resolved ()) =
     Exported
       \<lparr>req_method = POST, req_url = str ''/api/projects/generate_pptx'',
        req_body = DeckBody
          \<lparr>deck_title = str ''T'', deck_author = str ''T'', deck_template = None,
           deck_slides = [TitleSlide (str ''T'') (str ''PPTX'') []]\<rparr>\<rparr>
       (str ''T.pptx'') (str ''PPTX generated and downloaded'')"
proof -
  have s: "project_sections emptyProject = Some []"
    by (simp add: emptyProject_def)
  have d: "project_docType emptyProject = Pptx" "project_title emptyProject = str ''T''"
    by (simp_all add: emptyProject_def)
  have f: "fileName (str ''T'') (str ''presentation'') @ str ''.pptx'' = str ''T.pptx''"
    by (simp add: fileName_def or_else_def truthy_def isFileNameUnit_def str_def)
  obtain deck where
    "buildDeck emptyProject None = Some deck"
    "deck_slides deck = [TitleSlide (str ''T'') (str ''PPTX'') []]"
    "handleExport (Some emptyProject) None (Resolved ()) =
       Exported
         \<lparr>req_method = POST, req_url = str ''/api/projects/generate_pptx'',
          req_body = DeckBody deck\<rparr>
         (str ''T.pptx'') (str ''PPTX generated and downloaded'')"
    using deck_is_title_slide_and_one_slide_per_section [OF s, of None] d f
    by (auto simp: toUpperCase_def str_def)
  moreover have "deck_title deck = str ''T''" "deck_author deck = str ''T''"
    "deck_template deck = None"
    using calculation(1) by (auto simp: buildDeck_def emptyProject_def)
  ultimately show ?thesis
    using s by (cases deck) simp
qed


section \<open>Creating, loading and deleting projects\<close>

lemma twoProjects_projects: "projects twoProjects = [emptyProject, reportProject]"
  by (simp add: twoProjects_def)

text \<open>
  C8: when the call of \<open>addProject\<close> is answered, the server's project, with its id made
  a string, its two timestamps made dates and its other fields as the server sent them (the
  sections with their ids made strings and missing revisions and comments made empty), is
  appended at the end of \<open>projects\<close>; the projects that were there keep their places and
  values, \<open>currentProject\<close> is untouched, and \<open>addProject\<close> returns the project it
  appended.
\<close>

theorem addProject_appends_created_project:
  "fst (addProject state project (Resolved data)) = Some (normalizeCreated data) \<and>
   projects (eff_state (snd (addProject state project (Resolved data)))) =
     projects state @ [normalizeCreated data] \<and>
   length (projects (eff_state (snd (addProject state project (Resolved data))))) =
     Suc (length (projects state)) \<and>
   (\<forall>k < length (projects state).
      projects (eff_state (snd (addProject state project (Resolved data)))) ! k =
        projects state ! k) \<and>
   last (projects (eff_state (snd (addProject state project (Resolved data))))) =
     normalizeCreated data \<and>
   currentProject (eff_state (snd (addProject state project (Resolved data)))) =
     currentProject state \<and>
   normalizeCreated data =
     \<lparr>project_id = String (pw_id data),
      project_title = pw_title data,
      project_docType = pw_docType data,
      project_topic = pw_topic data,
      project_sections =
        map_option
          (map (\<lambda>s. \<lparr>section_id = String (sw_id s),
                       section_title = sw_title s,
                       section_content = sw_content s,
                       section_order = sw_order s,
                       section_revisions = (case sw_revisions s of None \<Rightarrow> [] | Some rs \<Rightarrow> rs),
                       section_comments = (case sw_comments s of None \<Rightarrow> [] | Some cs \<Rightarrow> cs),
                       section_liked = sw_liked s\<rparr>))
          (pw_sections data),
      project_createdAt =
        DateOf (case pw_created_at data of
                  None \<Rightarrow> pw_createdAt data
                | Some s \<Rightarrow> if s = [] then pw_createdAt data else Some s),
      project_updatedAt =
        DateOf (case pw_updated_at data of
                  None \<Rightarrow> pw_updatedAt data
                | Some s \<Rightarrow> if s = [] then pw_updatedAt data else Some s)\<rparr>"
proof -
  have returned: "fst (addProject state project (Resolved data)) = Some (normalizeCreated data)"
    by (simp add: addProject_def Let_def)
  have stored: "eff_state (snd (addProject state project (Resolved data))) =
      state\<lparr>projects := projects state @ [normalizeCreated data]\<rparr>"
    by (simp add: addProject_def Let_def)
  have kept: "(projects state @ [normalizeCreated data]) ! k = projects state ! k"
    if "k < length (projects state)" for k
    using that by (simp add: nth_append)
  have sect: "normalizeSection =
      (\<lambda>s. \<lparr>section_id = String (sw_id s),
             section_title = sw_title s,
             section_content = sw_content s,
             section_order = sw_order s,
             section_revisions = (case sw_revisions s of None \<Rightarrow> [] | Some rs \<Rightarrow> rs),
             section_comments = (case sw_comments s of None \<Rightarrow> [] | Some cs \<Rightarrow> cs),
             section_liked = sw_liked s\<rparr>)"
    by (rule ext) (simp add: normalizeSection_def or_empty_def)
  have dates: "or_undefined a b = (case a of None \<Rightarrow> b | Some s \<Rightarrow> if s = [] then b else Some s)"
    for a b
    by (simp add: or_undefined_def truthy_def split: option.splits)
  have created: "normalizeCreated data =
     \<lparr>project_id = String (pw_id data),
      project_title = pw_title data,
      project_docType = pw_docType data,
      project_topic = pw_topic data,
      project_sections =
        map_option
          (map (\<lambda>s. \<lparr>section_id = String (sw_id s),
                       section_title = sw_title s,
                       section_content = sw_content s,
                       section_order = sw_order s,
                       section_revisions = (case sw_revisions s of None \<Rightarrow> [] | Some rs \<Rightarrow> rs),
                       section_comments = (case sw_comments s of None \<Rightarrow> [] | Some cs \<Rightarrow> cs),
                       section_liked = sw_liked s\<rparr>))
          (pw_sections data),
      project_createdAt =
        DateOf (case pw_created_at data of
                  None \<Rightarrow> pw_createdAt data
                | Some s \<Rightarrow> if s = [] then pw_createdAt data else Some s),
      project_updatedAt =
        DateOf (case pw_updated_at data of
                  None \<Rightarrow> pw_updatedAt data
                | Some s \<Rightarrow> if s = [] then pw_updatedAt data else Some s)\<rparr>"
    unfolding normalizeCreated_def sect dates ..
  show ?thesis
    unfolding stored using returned kept created by simp
qed

theorem addProject_appends_created_project_witness:
  "fst (addProject twoProjects reportDraft (Resolved createdWire)) =
     Some
       \<lparr>project_id = str ''42'', project_title = str ''Report'', project_docType = Docx,
        project_topic = str ''x'',
        project_sections =
          Some [\<lparr>section_id = str ''12'', section_title = str ''Introduction'',
                 section_content = [], section_order = 0, section_revisions = [],
                 section_comments = [], section_liked = None\<rparr>],
        project_createdAt = DateOf (Some (str ''2025-01-15'')),
        project_updatedAt = DateOf (Some (str ''2025-01-16''))\<rparr> \<and>
   projects (eff_state (snd (addProject twoProjects reportDraft (Resolved createdWire)))) =
     [emptyProject, reportProject,
      \<lparr>project_id = str ''42'', project_title = str ''Report'', project_docType = Docx,
       project_topic = str ''x'',
       project_sections =
         Some [\<lparr>section_id = str ''12'', section_title = str ''Introduction'',
                section_content = [], section_order = 0, section_revisions = [],
                section_comments = [], section_liked = None\<rparr>],
       project_createdAt = DateOf (Some (str ''2025-01-15'')),
       project_updatedAt = DateOf (Some (str ''2025-01-16''))\<rparr>]"
proof -
  have w: "String (pw_id createdWire) = str ''42''" "String (sw_id introWire) = str ''12''"
    by (simp_all add: createdWire_def introWire_def toStringNat.simps str_def)
  have c: "pw_title createdWire = str ''Report''" "pw_docType createdWire = Docx"
    "pw_topic createdWire = str ''x''" "pw_sections createdWire = Some [introWire]"
    "pw_created_at createdWire = Some (str ''2025-01-15'')"
    "pw_updated_at createdWire = Some (str ''2025-01-16'')"
    "str ''2025-01-15'' \<noteq> []" "str ''2025-01-16'' \<noteq> []"
    by (simp_all add: createdWire_def str_def)
  have i: "sw_title introWire = str ''Introduction''" "sw_content introWire = []"
    "sw_order introWire = 0" "sw_revisions introWire = None" "sw_comments introWire = None"
    "sw_liked introWire = None"
    by (simp_all add: introWire_def)
  show ?thesis
    using addProject_appends_created_project [of twoProjects reportDraft createdWire]
    by (simp add: w c i twoProjects_projects)
qed

text \<open>
  C5: when the call of \<open>deleteProject\<close> is answered, the projects with the given id are
  gone from \<open>projects\<close> and every other project is still there, as often as before and in
  the same order; \<open>currentProject\<close> becomes \<open>null\<close> when it had that id and is left as
  it was otherwise.
\<close>

theorem deleteProject_removes_only_that_project:
  "projects (eff_state (deleteProject state i (Resolved u))) =
     filter (\<lambda>p. project_id p \<noteq> i) (projects state) \<and>
   (\<forall>p \<in> set (projects (eff_state (deleteProject state i (Resolved u)))). project_id p \<noteq> i) \<and>
   (\<forall>p. project_id p \<noteq> i \<longrightarrow>
      count_list (projects (eff_state (deleteProject state i (Resolved u)))) p =
        count_list (projects state) p) \<and>
   subseq (projects (eff_state (deleteProject state i (Resolved u)))) (projects state) \<and>
   ((\<exists>c. currentProject state = Some c \<and> project_id c = i) \<longrightarrow>
      currentProject (eff_state (deleteProject state i (Resolved u))) = None) \<and>
   (\<not> (\<exists>c. currentProject state = Some c \<and> project_id c = i) \<longrightarrow>
      currentProject (eff_state (deleteProject state i (Resolved u))) = currentProject state)"
proof -
  have count: "count_list (filter (\<lambda>p. project_id p \<noteq> i) ps) p = count_list ps p"
    if "project_id p \<noteq> i" for p and ps :: "Project list"
    using that by (induction ps) auto
  show ?thesis
    by (auto simp: deleteProject_def count split: option.splits)
qed

theorem deleteProject_removes_only_that_project_witness:
  "eff_state (deleteProject twoProjects (str ''42'') (Resolved ())) =
     \<lparr>projects = [emptyProject], currentProject = None\<rparr> \<and>
   eff_state (deleteProject twoProjects (str ''7'') (Resolved ())) =
     \<lparr>projects = [reportProject], currentProject = Some reportProject\<rparr>"
proof -
  have ids: "project_id emptyProject = str ''7''" "project_id reportProject = str ''42''"
    by (simp_all add: emptyProject_def reportProject_def)
  have ne: "str ''7'' \<noteq> str ''42''"
    by (simp add: str_def)
  have p: "projects twoProjects = [emptyProject, reportProject]"
    and c: "currentProject twoProjects = Some reportProject"
    by (simp_all add: twoProjects_def)
  have "projects (eff_state (deleteProject twoProjects (str ''42'') (Resolved ()))) = [emptyProject]"
    "currentProject (eff_state (deleteProject twoProjects (str ''42'') (Resolved ()))) = None"
    using deleteProject_removes_only_that_project [of twoProjects "str ''42''" "()"] ids ne p c
    by simp_all
  moreover have
    "projects (eff_state (deleteProject twoProjects (str ''7'') (Resolved ()))) = [reportProject]"
    "currentProject (eff_state (deleteProject twoProjects (str ''7'') (Resolved ()))) =
       Some reportProject"
    using deleteProject_removes_only_that_project [of twoProjects "str ''7''" "()"] ids ne p c
    by simp_all
  ultimately show ?thesis
    by (intro conjI ProjectState.equality) simp_all
qed

lemma normalizeSection_normalised: "list_all2 normalisedFrom ws (map normalizeSection ws)"
  by (induction ws) (simp_all add: normalisedFrom_def normalizeSection_def or_empty_def)

text \<open>
  C9: the project that \<open>addProject\<close> appends, the one that the fetch of
  \<open>setCurrentProject\<close> sets, and each project that \<open>loadProjects\<close> stores has the string
  of the response's id as its id, and each of its sections has the string of its id, and
  the revisions and comments of the response, or empty arrays where the response has none.
\<close>

theorem stored_projects_are_normalised:
  "(\<exists>p. fst (addProject state project (Resolved data)) = Some p \<and>
        projects (eff_state (snd (addProject state project (Resolved data)))) =
          projects state @ [p] \<and>
        project_id p = String (pw_id data) \<and>
        (case pw_sections data of
           None \<Rightarrow> project_sections p = None
         | Some ws \<Rightarrow> \<exists>ss. project_sections p = Some ss \<and> list_all2 normalisedFrom ws ss)) \<and>
   ((case project_sections q of None \<Rightarrow> True | Some ss \<Rightarrow> ss = []) \<longrightarrow>
      (\<exists>p. currentProject (eff_state (setCurrentProject state (Some q) (Resolved data))) = Some p \<and>
           project_id p = String (pw_id data) \<and>
           (\<exists>ss. project_sections p = Some ss \<and>
                 list_all2 normalisedFrom (case pw_sections data of None \<Rightarrow> [] | Some ws \<Rightarrow> ws) ss))) \<and>
   list_all2
     (\<lambda>d p. project_id p = String (pw_id d) \<and>
            (\<exists>ss. project_sections p = Some ss \<and>
                  list_all2 normalisedFrom (case pw_sections d of None \<Rightarrow> [] | Some ws \<Rightarrow> ws) ss))
     datas (projects (eff_state (loadProjects state (Resolved datas))))"
proof -
  have fetched: "project_id (normalizeFetched d) = String (pw_id d) \<and>
      (\<exists>ss. project_sections (normalizeFetched d) = Some ss \<and>
            list_all2 normalisedFrom (case pw_sections d of None \<Rightarrow> [] | Some ws \<Rightarrow> ws) ss)" for d
    by (cases "pw_sections d") (simp_all add: normalizeFetched_def normalizeSection_normalised)
  have a: "\<exists>p. fst (addProject state project (Resolved data)) = Some p \<and>
        projects (eff_state (snd (addProject state project (Resolved data)))) =
          projects state @ [p] \<and>
        project_id p = String (pw_id data) \<and>
        (case pw_sections data of
           None \<Rightarrow> project_sections p = None
         | Some ws \<Rightarrow> \<exists>ss. project_sections p = Some ss \<and> list_all2 normalisedFrom ws ss)"
    by (cases "pw_sections data")
      (simp_all add: addProject_def Let_def normalizeCreated_def normalizeSection_normalised)
  have b: "\<exists>p. currentProject (eff_state (setCurrentProject state (Some q) (Resolved data))) = Some p \<and>
           project_id p = String (pw_id data) \<and>
           (\<exists>ss. project_sections p = Some ss \<and>
                 list_all2 normalisedFrom (case pw_sections data of None \<Rightarrow> [] | Some ws \<Rightarrow> ws) ss)"
    if "case project_sections q of None \<Rightarrow> True | Some ss \<Rightarrow> ss = []"
    using that fetched [of data]
    by (auto simp: setCurrentProject_def Let_def split: option.splits)
  have c: "list_all2
     (\<lambda>d p. project_id p = String (pw_id d) \<and>
            (\<exists>ss. project_sections p = Some ss \<and>
                  list_all2 normalisedFrom (case pw_sections d of None \<Rightarrow> [] | Some ws \<Rightarrow> ws) ss))
     datas (map normalizeFetched datas)"
    using fetched by (induction datas) simp_all
  show ?thesis
    using a b c by (simp add: loadProjects_def Let_def)
qed

theorem stored_projects_are_normalised_witness:
  "(case project_sections emptyProject of None \<Rightarrow> True | Some ss \<Rightarrow> ss = []) \<and>
   (\<exists>p ss.
      currentProject
        (eff_state (setCurrentProject twoProjects (Some emptyProject) (Resolved createdWire))) =
        Some p \<and>
      project_id p = str ''42'' \<and> project_sections p = Some ss \<and>
      map section_id ss = [str ''12''] \<and> map section_revisions ss = [[]] \<and>
      map section_comments ss = [[]])"
proof -
  have e: "case project_sections emptyProject of None \<Rightarrow> True | Some ss \<Rightarrow> ss = []"
    by (simp add: emptyProject_def)
  have w: "String (pw_id createdWire) = str ''42''" "pw_sections createdWire = Some [introWire]"
    "String (sw_id introWire) = str ''12''" "sw_revisions introWire = None"
    "sw_comments introWire = None"
    by (simp_all add: createdWire_def introWire_def toStringNat.simps str_def)
  show ?thesis
    using stored_projects_are_normalised [of twoProjects reportDraft createdWire emptyProject "[]"] e
    by (auto simp: w list_all2_Cons1 normalisedFrom_def)
qed


section \<open>Mutations of sections\<close>

lemma mapSections_Some:
  "project_sections p \<noteq> None \<Longrightarrow> mapSections f now p = Some (withSections f now p)"
  by (auto simp: mapSections_def withSections_def)

lemma mapMatching_mapSections:
  "list_all (\<lambda>p. project_sections p \<noteq> None) ps \<Longrightarrow>
   mapMatching i (mapSections f now) ps =
     Some (map (\<lambda>p. if project_id p = i then withSections f now p else p) ps)"
  by (induction ps) (auto simp: mapSections_Some)

lemma mapMatching_length:
  "mapMatching i g ps = Some ps' \<Longrightarrow> length ps' = length ps"
  by (induction ps arbitrary: ps') (auto split: option.splits if_splits)

lemma addRevision_currentProject:
  "currentProject (eff_state (addRevision state i sid c pr now)) = currentProject state"
  by (simp add: addRevision_def Let_def split: option.splits)

lemma addComment_currentProject:
  "currentProject (eff_state (addComment state i sid txt now res)) = currentProject state"
  by (simp add: addComment_def Let_def split: option.splits)

lemma updateSection_defined:
  assumes "sectionsDefined state"
  shows "updateSection state i sid u now =
     \<lparr>eff_state =
        \<lparr>projects =
           map (\<lambda>p. if project_id p = i
                     then withSections (\<lambda>s. if section_id s = sid then applyUpdates s u else s) now p
                     else p) (projects state),
         currentProject =
           map_option (\<lambda>p. if project_id p = i
                     then withSections (\<lambda>s. if section_id s = sid then applyUpdates s u else s) now p
                     else p) (currentProject state)\<rparr>,
      eff_requests = [], eff_console = [], eff_thrown = False\<rparr>"
  using assms
  by (auto simp: updateSection_def Let_def sectionsDefined_def mapMatching_mapSections
      mapSections_Some split: option.splits)

lemma addRevision_defined:
  assumes "list_all (\<lambda>p. project_sections p \<noteq> None) (projects state)"
  shows "addRevision state i sid c pr now =
     \<lparr>eff_state =
        state\<lparr>projects :=
           map (\<lambda>p. if project_id p = i
                     then withSections
                            (\<lambda>s. if section_id s = sid
                                 then s\<lparr>section_revisions :=
                                          section_revisions s @ [newRevision c pr now]\<rparr>
                                 else s) now p
                     else p) (projects state)\<rparr>,
      eff_requests = [], eff_console = [], eff_thrown = False\<rparr>"
  using assms by (simp add: addRevision_def Let_def mapMatching_mapSections)

lemma addComment_defined:
  assumes "list_all (\<lambda>p. project_sections p \<noteq> None) (projects state)"
  shows "addComment state i sid txt now res =
     \<lparr>eff_state =
        state\<lparr>projects :=
           map (\<lambda>p. if project_id p = i
                     then withSections
                            (\<lambda>s. if section_id s = sid
                                 then s\<lparr>section_comments :=
                                          section_comments s @ [newComment txt now]\<rparr>
                                 else s) now p
                     else p) (projects state)\<rparr>,
      eff_requests =
        [\<lparr>req_method = POST, req_url = projectUrl i @ str ''/comment'',
          req_body = CommentBody sid txt\<rparr>],
      eff_console = (case res of Rejected \<Rightarrow> [str ''Failed to persist comment''] | Resolved _ \<Rightarrow> []),
      eff_thrown = False\<rparr>"
  using assms by (simp add: addComment_def Let_def mapMatching_mapSections)

lemma local_mutations_make_no_call:
  "eff_requests (updateSection state i sid u now) = []"
  "eff_console (updateSection state i sid u now) = []"
  "eff_requests (addRevision state i sid c pr now) = []"
  "eff_console (addRevision state i sid c pr now) = []"
  by (simp_all add: updateSection_def addRevision_def Let_def split: option.splits)

lemma twoProjects_defined: "sectionsDefined twoProjects"
  by (simp add: sectionsDefined_def twoProjects_def emptyProject_def reportProject_def)

lemma twoProjects_mirrored: "mirrored twoProjects"
  by (simp add: mirrored_def twoProjects_def)

lemma addRevision_diverges:
  "\<not> mirrored (eff_state (addRevision twoProjects (str ''42'') (str ''s1'') (str ''new'') (str ''shorten'') 5))"
proof -
  have "list_all (\<lambda>p. project_sections p \<noteq> None) (projects twoProjects)"
    using twoProjects_defined by (simp add: sectionsDefined_def)
  then show ?thesis
    by (simp add: addRevision_defined mirrored_def)
      (simp add: twoProjects_def emptyProject_def reportProject_def withSections_def str_def)
qed

lemma addComment_diverges:
  "\<not> mirrored (eff_state (addComment twoProjects (str ''42'') (str ''s1'') (str ''note'') 5 res))"
proof -
  have "list_all (\<lambda>p. project_sections p \<noteq> None) (projects twoProjects)"
    using twoProjects_defined by (simp add: sectionsDefined_def)
  then show ?thesis
    by (simp add: addComment_defined mirrored_def)
      (simp add: twoProjects_def emptyProject_def reportProject_def withSections_def str_def)
qed

text \<open>
  C10: \<open>addRevision\<close> and \<open>addComment\<close> never change \<open>currentProject\<close>, whatever its
  id. \<open>updateSection\<close> applies one and the same update to the matching projects of
  \<open>projects\<close> and to \<open>currentProject\<close>, so it keeps \<open>currentProject\<close> a mirror of
  \<open>projects\<close>; after \<open>addRevision\<close> or \<open>addComment\<close> the mirror can be lost.
\<close>

theorem revisions_and_comments_bypass_currentProject:
  "currentProject (eff_state (addRevision state i sid c pr now)) = currentProject state \<and>
   currentProject (eff_state (addComment state i sid txt now res)) = currentProject state \<and>
   (sectionsDefined state \<longrightarrow>
      projects (eff_state (updateSection state i sid u now)) =
        map (\<lambda>p. if project_id p = i
                  then withSections (\<lambda>s. if section_id s = sid then applyUpdates s u else s) now p
                  else p) (projects state) \<and>
      currentProject (eff_state (updateSection state i sid u now)) =
        map_option (\<lambda>p. if project_id p = i
                  then withSections (\<lambda>s. if section_id s = sid then applyUpdates s u else s) now p
                  else p) (currentProject state) \<and>
      (mirrored state \<longrightarrow> mirrored (eff_state (updateSection state i sid u now)))) \<and>
   (\<exists>state' i' sid' c' pr' now'.
      sectionsDefined state' \<and> mirrored state' \<and>
      \<not> mirrored (eff_state (addRevision state' i' sid' c' pr' now'))) \<and>
   (\<exists>state' i' sid' txt' now'.
      sectionsDefined state' \<and> mirrored state' \<and>
      (\<forall>res'. \<not> mirrored (eff_state (addComment state' i' sid' txt' now' res'))))"
proof -
  have upd: "mirrored (eff_state (updateSection state i sid u now))"
    if "sectionsDefined state" "mirrored state"
    using that by (auto simp: updateSection_defined mirrored_def split: option.splits)
  have r: "\<exists>state' i' sid' c' pr' now'.
      sectionsDefined state' \<and> mirrored state' \<and>
      \<not> mirrored (eff_state (addRevision state' i' sid' c' pr' now'))"
    using twoProjects_defined twoProjects_mirrored addRevision_diverges by blast
  have c: "\<exists>state' i' sid' txt' now'.
      sectionsDefined state' \<and> mirrored state' \<and>
      (\<forall>res'. \<not> mirrored (eff_state (addComment state' i' sid' txt' now' res')))"
    using twoProjects_defined twoProjects_mirrored addComment_diverges by blast
  show ?thesis
    using upd r c
    by (simp add: addRevision_currentProject addComment_currentProject updateSection_defined)
qed

theorem revisions_and_comments_bypass_currentProject_witness:
  "sectionsDefined twoProjects \<and> mirrored twoProjects \<and>
   mirrored (eff_state (updateSection twoProjects (str ''42'') (str ''s1'') likedUpdate 5)) \<and>
   currentProject
     (eff_state (addRevision twoProjects (str ''42'') (str ''s1'') (str ''new'') (str ''shorten'') 5)) =
     Some reportProject \<and>
   \<not> mirrored
       (eff_state (addRevision twoProjects (str ''42'') (str ''s1'') (str ''new'') (str ''shorten'') 5))"
proof -
  have "currentProject twoProjects = Some reportProject"
    by (simp add: twoProjects_def)
  then show ?thesis
    using revisions_and_comments_bypass_currentProject
        [of twoProjects "str ''42''" "str ''s1''" "str ''new''" "str ''shorten''" 5 _ _ likedUpdate]
      twoProjects_defined twoProjects_mirrored addRevision_diverges
    by simp
qed

text \<open>
  C4, as stated, has every mutation update the store at once and send a call of its own.
  \<open>updateSection\<close> and \<open>addRevision\<close> send nothing, and \<open>addProject\<close> and
  \<open>deleteProject\<close> leave the store as it is when their call fails: they change it only
  once the call is answered.
\<close>

theorem store_mutations_not_all_optimistic_counterexample:
  "eff_requests (updateSection twoProjects (str ''42'') (str ''s1'') likedUpdate 5) = [] \<and>
   eff_requests (addRevision twoProjects (str ''42'') (str ''s1'') (str ''new'') (str ''shorten'') 5) = [] \<and>
   eff_state (snd (addProject twoProjects reportDraft Rejected)) = twoProjects \<and>
   eff_state (snd (addProject twoProjects reportDraft (Resolved createdWire))) \<noteq> twoProjects \<and>
   eff_state (deleteProject twoProjects (str ''42'') Rejected) = twoProjects \<and>
   eff_state (deleteProject twoProjects (str ''42'') (Resolved ())) \<noteq> twoProjects"
proof -
  have "eff_requests (updateSection twoProjects (str ''42'') (str ''s1'') likedUpdate 5) = []"
    by (rule local_mutations_make_no_call)
  moreover have "eff_requests
      (addRevision twoProjects (str ''42'') (str ''s1'') (str ''new'') (str ''shorten'') 5) = []"
    by (rule local_mutations_make_no_call)
  moreover have "eff_state (snd (addProject twoProjects reportDraft Rejected)) = twoProjects"
    by (simp add: addProject_def Let_def)
  moreover have
    "eff_state (snd (addProject twoProjects reportDraft (Resolved createdWire))) \<noteq> twoProjects"
    by (simp add: addProject_def Let_def twoProjects_def)
  moreover have "eff_state (deleteProject twoProjects (str ''42'') Rejected) = twoProjects"
    by (simp add: deleteProject_def Let_def)
  moreover have "eff_state (deleteProject twoProjects (str ''42'') (Resolved ())) \<noteq> twoProjects"
    by (simp add: deleteProject_def Let_def twoProjects_def reportProject_def)
  ultimately show ?thesis
    by simp
qed

text \<open>
  C4, amended: \<open>addComment\<close> sends its call without waiting for it, updates
  \<open>projects\<close> whatever becomes of the call, and only logs a failure. \<open>addProject\<close> and
  \<open>deleteProject\<close> wait for their call: they change the store when it is answered, and
  log the failure and leave the store unchanged otherwise. \<open>updateSection\<close> and
  \<open>addRevision\<close> change the store only: no call, nothing logged.
\<close>

theorem store_mutations_and_their_calls:
  "eff_requests (addComment state i sid txt now res) =
     [\<lparr>req_method = POST, req_url = projectUrl i @ str ''/comment'',
       req_body = CommentBody sid txt\<rparr>] \<and>
   eff_state (addComment state i sid txt now res) =
     eff_state (addComment state i sid txt now (Resolved ())) \<and>
   (list_all (\<lambda>p. project_sections p \<noteq> None) (projects state) \<longrightarrow>
      eff_state (addComment state i sid txt now res) =
        state\<lparr>projects :=
           map (\<lambda>p. if project_id p = i
                     then withSections
                            (\<lambda>s. if section_id s = sid
                                 then s\<lparr>section_comments :=
                                          section_comments s @ [newComment txt now]\<rparr>
                                 else s) now p
                     else p) (projects state)\<rparr>) \<and>
   eff_console (addComment state i sid txt now Rejected) = [str ''Failed to persist comment''] \<and>
   eff_console (addComment state i sid txt now (Resolved ())) = [] \<and>
   addProject state project Rejected =
     (None,
      \<lparr>eff_state = state,
       eff_requests =
         [\<lparr>req_method = POST, req_url = str ''/api/projects/'', req_body = ProjectBody project\<rparr>],
       eff_console = [str ''Failed to create project''], eff_thrown = False\<rparr>) \<and>
   addProject state project (Resolved data) =
     (Some (normalizeCreated data),
      \<lparr>eff_state = state\<lparr>projects := projects state @ [normalizeCreated data]\<rparr>,
       eff_requests =
         [\<lparr>req_method = POST, req_url = str ''/api/projects/'', req_body = ProjectBody project\<rparr>],
       eff_console = [], eff_thrown = False\<rparr>) \<and>
   deleteProject state i Rejected =
     \<lparr>eff_state = state,
      eff_requests = [\<lparr>req_method = DELETE, req_url = projectUrl i, req_body = NoBody\<rparr>],
      eff_console = [str ''Failed to delete project''], eff_thrown = False\<rparr> \<and>
   eff_requests (deleteProject state i (Resolved ())) =
     [\<lparr>req_method = DELETE, req_url = projectUrl i, req_body = NoBody\<rparr>] \<and>
   eff_console (deleteProject state i (Resolved ())) = [] \<and>
   projects (eff_state (deleteProject state i (Resolved ()))) =
     filter (\<lambda>p. project_id p \<noteq> i) (projects state) \<and>
   eff_requests (updateSection state i sid u now) = [] \<and>
   eff_console (updateSection state i sid u now) = [] \<and>
   eff_requests (addRevision state i sid c pr now) = [] \<and>
   eff_console (addRevision state i sid c pr now) = []"
proof -
  have comment: "eff_state (addComment state i sid txt now res) =
      eff_state (addComment state i sid txt now (Resolved ()))"
    by (simp add: addComment_def Let_def split: option.splits)
  have comment_requests: "eff_requests (addComment state i sid txt now res) =
     [\<lparr>req_method = POST, req_url = projectUrl i @ str ''/comment'',
       req_body = CommentBody sid txt\<rparr>]"
    by (simp add: addComment_def Let_def split: option.splits)
  have comment_console:
    "eff_console (addComment state i sid txt now Rejected) = [str ''Failed to persist comment'']"
    "eff_console (addComment state i sid txt now (Resolved ())) = []"
    by (simp_all add: addComment_def Let_def split: option.splits)
  have awaited:
    "addProject state project Rejected =
     (None,
      \<lparr>eff_state = state,
       eff_requests =
         [\<lparr>req_method = POST, req_url = str ''/api/projects/'', req_body = ProjectBody project\<rparr>],
       eff_console = [str ''Failed to create project''], eff_thrown = False\<rparr>)"
    "addProject state project (Resolved data) =
     (Some (normalizeCreated data),
      \<lparr>eff_state = state\<lparr>projects := projects state @ [normalizeCreated data]\<rparr>,
       eff_requests =
         [\<lparr>req_method = POST, req_url = str ''/api/projects/'', req_body = ProjectBody project\<rparr>],
       eff_console = [], eff_thrown = False\<rparr>)"
    "deleteProject state i Rejected =
     \<lparr>eff_state = state,
      eff_requests = [\<lparr>req_method = DELETE, req_url = projectUrl i, req_body = NoBody\<rparr>],
      eff_console = [str ''Failed to delete project''], eff_thrown = False\<rparr>"
    "eff_requests (deleteProject state i (Resolved ())) =
     [\<lparr>req_method = DELETE, req_url = projectUrl i, req_body = NoBody\<rparr>]"
    "eff_console (deleteProject state i (Resolved ())) = []"
    "projects (eff_state (deleteProject state i (Resolved ()))) =
     filter (\<lambda>p. project_id p \<noteq> i) (projects state)"
    by (simp_all add: addProject_def deleteProject_def Let_def)
  show ?thesis
    unfolding awaited local_mutations_make_no_call comment_console comment_requests
    using comment by (simp add: addComment_defined)
qed

theorem store_mutations_and_their_calls_witness:
  "list_all (\<lambda>p. project_sections p \<noteq> None) (projects twoProjects) \<and>
   eff_state (addComment twoProjects (str ''42'') (str ''s1'') (str ''note'') 5 Rejected) =
     \<lparr>projects =
        [emptyProject,
         reportProject
           \<lparr>project_sections :=
              Some [introSection\<lparr>section_comments := [newComment (str ''note'') 5]\<rparr>,
                    introSection\<lparr>section_id := str ''s2''\<rparr>],
            project_updatedAt := DateAt 5\<rparr>],
      currentProject = Some reportProject\<rparr>"
proof -
  have d: "list_all (\<lambda>p. project_sections p \<noteq> None) (projects twoProjects)"
    using twoProjects_defined by (simp add: sectionsDefined_def)
  have "eff_state (addComment twoProjects (str ''42'') (str ''s1'') (str ''note'') 5 Rejected) =
      twoProjects\<lparr>projects :=
           map (\<lambda>p. if project_id p = str ''42''
                     then withSections
                            (\<lambda>s. if section_id s = str ''s1''
                                 then s\<lparr>section_comments :=
                                          section_comments s @ [newComment (str ''note'') 5]\<rparr>
                                 else s) 5 p
                     else p) (projects twoProjects)\<rparr>"
    using store_mutations_and_their_calls [of twoProjects "str ''42''" "str ''s1''" "str ''note''"
        5 Rejected] d
    by blast
  then show ?thesis
    using d
    by (simp add: twoProjects_def emptyProject_def reportProject_def introSection_def
        withSections_def str_def)
qed


section \<open>Refining a section\<close>

lemma withSections_sections:
  "project_sections (withSections f now p) = map_option (map f) (project_sections p)"
  by (simp add: withSections_def)

lemma updateSection_keeps_defined:
  assumes "sectionsDefined state"
  shows "list_all (\<lambda>p. project_sections p \<noteq> None)
      (projects (eff_state (updateSection state i sid u now)))"
  using assms
  by (auto simp: updateSection_defined sectionsDefined_def list_all_iff withSections_sections)

lemma withSections_id: "project_id (withSections f now p) = project_id p"
  by (simp add: withSections_def)

lemma handleRefine_success:
  assumes "truthy (trim prompt)" and "auth_token auth = Some token" and "truthy token"
    and "sectionsDefined state"
  shows "handleRefine auth state i sec prompt (Resolved out) now now' =
     \<lparr>ui_state =
        (eff_state
           (updateSection state i (section_id sec)
              (noUpdates\<lparr>upd_content := Some (case rw_text out of None \<Rightarrow> [] | Some t \<Rightarrow> t)\<rparr>)
              now))
        \<lparr>projects :=
           map (\<lambda>p. if project_id p = i
                     then withSections
                            (\<lambda>s. if section_id s = section_id sec
                                 then s\<lparr>section_revisions :=
                                          section_revisions s @
                                            [newRevision
                                               (case rw_text out of None \<Rightarrow> [] | Some t \<Rightarrow> t)
                                               prompt now']\<rparr>
                                 else s) now' p
                     else p)
             (projects
                (eff_state
                   (updateSection state i (section_id sec)
                      (noUpdates\<lparr>upd_content :=
                         Some (case rw_text out of None \<Rightarrow> [] | Some t \<Rightarrow> t)\<rparr>)
                      now)))\<rparr>,
      ui_requests =
        [\<lparr>req_method = POST, req_url = projectUrl i @ str ''/refine'',
          req_body = RefineBody (section_id sec) prompt\<rparr>],
      ui_console = [],
      ui_toasts = [ToastSuccess (str ''Content refined successfully!'')],
      ui_navigate = None\<rparr>"
proof -
  have t: "(case rw_text out of None \<Rightarrow> [] | Some t \<Rightarrow> or_else t []) =
      (case rw_text out of None \<Rightarrow> [] | Some t \<Rightarrow> t)"
    by (simp add: or_else_def truthy_def split: option.splits)
  have u: "\<not> eff_thrown (updateSection state i (section_id sec) u now)" for u
    by (simp add: updateSection_defined [OF assms(4)])
  note r = addRevision_defined [OF updateSection_keeps_defined [OF assms(4)]]
  show ?thesis
    using assms(1-3) by (simp add: handleRefine_def Let_def t u r)
qed

lemma refine_section_step:
  "list_all2
     (\<lambda>s s'. section_id s' = section_id s \<and>
        section_revisions s' =
          (if section_id s = sid then section_revisions s @ [r] else section_revisions s))
     ss
     (map (\<lambda>s. if section_id s = sid
               then s\<lparr>section_revisions := section_revisions s @ [r]\<rparr> else s)
        (map (\<lambda>s. if section_id s = sid
                  then applyUpdates s (noUpdates\<lparr>upd_content := Some x\<rparr>) else s) ss))"
  by (induction ss) (simp_all add: applyUpdates_def noUpdates_def)

lemma content_update_keeps_revisions:
  "list_all2
     (\<lambda>s s'. section_id s' = section_id s \<and>
        prefix (section_revisions s) (section_revisions s'))
     ss
     (map (\<lambda>s. if section_id s = sid
               then applyUpdates s (noUpdates\<lparr>upd_content := Some x\<rparr>) else s) ss)"
  by (induction ss) (simp_all add: applyUpdates_def noUpdates_def)

lemma openedStore_eq:
  "openedStore =
     \<lparr>projects = [normalizeFetched listedWire],
      currentProject = Some (normalizeFetched createdWire)\<rparr>"
  by (simp add: openedStore_def initialStore_def loadProjects_def setCurrentProject_def Let_def
      normalizeFetched_def listedWire_def)

lemma openedStore_defined: "sectionsDefined openedStore"
  by (simp add: openedStore_eq sectionsDefined_def normalizeFetched_def)

text \<open>
  What a refine does to the revision lists of a store whose projects have their sections:
  in \<open>projects\<close>, every section with the refined id in a project with the given id gets
  the new revision appended and every other list is as it was; in \<open>currentProject\<close> no
  list loses or changes a revision.
\<close>

lemma refine_appends_one_revision_in_projects:
  assumes "truthy (trim prompt)" and "auth_token auth = Some token" and "truthy token"
    and "sectionsDefined state"
  shows "ui_toasts (handleRefine auth state i sec prompt (Resolved out) now now') =
           [ToastSuccess (str ''Content refined successfully!'')] \<and>
         ui_requests (handleRefine auth state i sec prompt (Resolved out) now now') =
           [\<lparr>req_method = POST, req_url = projectUrl i @ str ''/refine'',
             req_body = RefineBody (section_id sec) prompt\<rparr>] \<and>
         list_all2
           (\<lambda>p p'. project_id p' = project_id p \<and>
              rel_option
                (list_all2
                   (\<lambda>s s'. section_id s' = section_id s \<and>
                      section_revisions s' =
                        (if project_id p = i \<and> section_id s = section_id sec
                         then section_revisions s @
                                [newRevision (case rw_text out of None \<Rightarrow> [] | Some t \<Rightarrow> t)
                                   prompt now']
                         else section_revisions s)))
                (project_sections p) (project_sections p'))
           (projects state)
           (projects (ui_state (handleRefine auth state i sec prompt (Resolved out) now now'))) \<and>
         rel_option
           (\<lambda>c c'. project_id c' = project_id c \<and>
              rel_option
                (list_all2
                   (\<lambda>s s'. section_id s' = section_id s \<and>
                      prefix (section_revisions s) (section_revisions s')))
                (project_sections c) (project_sections c'))
           (currentProject state)
           (currentProject (ui_state (handleRefine auth state i sec prompt (Resolved out) now now')))"
proof -
  let ?refined = "case rw_text out of None \<Rightarrow> [] | Some t \<Rightarrow> t"
  let ?g1 = "\<lambda>p. if project_id p = i
                  then withSections
                         (\<lambda>s. if section_id s = section_id sec
                              then applyUpdates s (noUpdates\<lparr>upd_content := Some ?refined\<rparr>)
                              else s) now p
                  else p"
  let ?g2 = "\<lambda>p. if project_id p = i
                  then withSections
                         (\<lambda>s. if section_id s = section_id sec
                              then s\<lparr>section_revisions :=
                                       section_revisions s @ [newRevision ?refined prompt now']\<rparr>
                              else s) now' p
                  else p"
  have same: "list_all2 (\<lambda>s s'. section_id s' = section_id s \<and>
      section_revisions s' = section_revisions s) ss ss" for ss :: "Section list"
    by (simp add: list_all2_same)
  have project: "project_id (?g2 (?g1 p)) = project_id p \<and>
      rel_option
        (list_all2
           (\<lambda>s s'. section_id s' = section_id s \<and>
              section_revisions s' =
                (if project_id p = i \<and> section_id s = section_id sec
                 then section_revisions s @ [newRevision ?refined prompt now']
                 else section_revisions s)))
        (project_sections p) (project_sections (?g2 (?g1 p)))" for p
  proof (cases "project_sections p")
    case None
    then show ?thesis
      by (simp add: withSections_id withSections_sections)
  next
    case (Some ss)
    then show ?thesis
      using refine_section_step [of "section_id sec" _ ss] same [of ss]
      by (simp add: withSections_id withSections_sections)
  qed
  have grown: "list_all2 (\<lambda>s s'. section_id s' = section_id s \<and>
      prefix (section_revisions s) (section_revisions s')) ss ss" for ss :: "Section list"
    by (simp add: list_all2_same)
  have current: "project_id (?g1 c) = project_id c \<and>
      rel_option
        (list_all2
           (\<lambda>s s'. section_id s' = section_id s \<and>
              prefix (section_revisions s) (section_revisions s')))
        (project_sections c) (project_sections (?g1 c))" for c
  proof (cases "project_sections c")
    case None
    then show ?thesis
      by (simp add: withSections_id withSections_sections)
  next
    case (Some ss)
    then show ?thesis
      using content_update_keeps_revisions [where sid = "section_id sec" and ss = ss]
        grown [of ss]
      by (simp add: withSections_id withSections_sections)
  qed
  have all: "list_all2
           (\<lambda>p p'. project_id p' = project_id p \<and>
              rel_option
                (list_all2
                   (\<lambda>s s'. section_id s' = section_id s \<and>
                      section_revisions s' =
                        (if project_id p = i \<and> section_id s = section_id sec
                         then section_revisions s @ [newRevision ?refined prompt now']
                         else section_revisions s)))
                (project_sections p) (project_sections p'))
           (projects state) (map ?g2 (map ?g1 (projects state)))"
    unfolding list_all2_map2 by (rule list_all2_refl) (rule project)
  have cur: "rel_option
           (\<lambda>c c'. project_id c' = project_id c \<and>
              rel_option
                (list_all2
                   (\<lambda>s s'. section_id s' = section_id s \<and>
                      prefix (section_revisions s) (section_revisions s')))
                (project_sections c) (project_sections c'))
           (currentProject state) (map_option ?g1 (currentProject state))"
    unfolding option.rel_map by (rule option.rel_refl) (rule current)
  have "projects (ui_state (handleRefine auth state i sec prompt (Resolved out) now now')) =
      map ?g2 (map ?g1 (projects state))"
    "currentProject (ui_state (handleRefine auth state i sec prompt (Resolved out) now now')) =
      map_option ?g1 (currentProject state)"
    unfolding handleRefine_success [OF assms]
    by (simp_all add: updateSection_defined [OF assms(4)])
  then show ?thesis
    using all cur by (simp add: handleRefine_success [OF assms])
qed

lemma refine_records_revision_for_listed_section:
  "truthy (trim (str ''shorten'')) \<and> auth_token loggedIn = Some (str ''jwt'') \<and>
   truthy (str ''jwt'') \<and> sectionsDefined twoProjects \<and>
   ui_toasts
     (handleRefine loggedIn twoProjects (str ''42'') introSection (str ''shorten'')
        (Resolved refineReply) 5 6) =
     [ToastSuccess (str ''Content refined successfully!'')] \<and>
   map (\<lambda>p. map_option (map section_revisions) (project_sections p))
     (projects
        (ui_state
           (handleRefine loggedIn twoProjects (str ''42'') introSection (str ''shorten'')
              (Resolved refineReply) 5 6))) =
     [Some [], Some [[newRevision (str ''new'') (str ''shorten'') 6], []]]"
proof -
  have a: "truthy (trim (str ''shorten''))" "auth_token loggedIn = Some (str ''jwt'')"
    "truthy (str ''jwt'')"
    by (simp_all add: truthy_def trim_def isWhiteSpace_def str_def loggedIn_def)
  have ids: "project_id emptyProject \<noteq> str ''42''" "project_id reportProject = str ''42''"
    "project_sections emptyProject = Some []"
    "project_sections reportProject = Some [introSection, introSection\<lparr>section_id := str ''s2''\<rparr>]"
    "section_id introSection = str ''s1''" "section_revisions introSection = []"
    "str ''s2'' \<noteq> str ''s1''" "rw_text refineReply = Some (str ''new'')"
    by (simp_all add: emptyProject_def reportProject_def introSection_def refineReply_def str_def)
  show ?thesis
    using refine_appends_one_revision_in_projects [OF a twoProjects_defined, of "str ''42''" introSection
        refineReply 5 6] a twoProjects_defined
    by (auto simp: twoProjects_projects ids list_all2_Cons1 option_rel_Some1)
qed

text \<open>
  C3: every refine appends exactly one revision to the revision list of the refined
  section. \<open>handleRefine\<close> misses this for a section that only \<open>currentProject\<close> holds.
  In the store left by \<open>loadProjects\<close> on a list that comes without sections, followed by
  the fetch of \<open>setCurrentProject\<close>, the refine goes through and \<open>updateSection\<close> puts
  the new content into the section of \<open>currentProject\<close>; \<open>addRevision\<close>, which maps over
  \<open>projects\<close> alone, records nothing: every revision list of the store is still empty.
\<close>

theorem refine_records_no_revision_for_unlisted_section:
  "projects openedStore = [normalizeFetched listedWire] \<and>
   project_sections (normalizeFetched listedWire) = Some [] \<and>
   currentProject openedStore = Some (normalizeFetched createdWire) \<and>
   project_sections (normalizeFetched createdWire) = Some [normalizeSection introWire] \<and>
   section_revisions (normalizeSection introWire) = [] \<and>
   handleRefine loggedIn openedStore (str ''42'') (normalizeSection introWire) (str ''shorten'')
       (Resolved refineReply) 5 6 =
     \<lparr>ui_state =
        \<lparr>projects = [(normalizeFetched listedWire)\<lparr>project_updatedAt := DateAt 6\<rparr>],
         currentProject =
           Some ((normalizeFetched createdWire)
                   \<lparr>project_sections :=
                      Some [(normalizeSection introWire)\<lparr>section_content := str ''new''\<rparr>],
                    project_updatedAt := DateAt 5\<rparr>)\<rparr>,
      ui_requests =
        [\<lparr>req_method = POST, req_url = str ''/api/projects/42/refine'',
          req_body = RefineBody (str ''12'') (str ''shorten'')\<rparr>],
      ui_console = [],
      ui_toasts = [ToastSuccess (str ''Content refined successfully!'')],
      ui_navigate = None\<rparr> \<and>
   map (\<lambda>p. map_option (map section_revisions) (project_sections p))
     (projects
        (ui_state
           (handleRefine loggedIn openedStore (str ''42'') (normalizeSection introWire)
              (str ''shorten'') (Resolved refineReply) 5 6))) =
     [Some []] \<and>
   map_option (\<lambda>p. map_option (map section_revisions) (project_sections p))
     (currentProject
        (ui_state
           (handleRefine loggedIn openedStore (str ''42'') (normalizeSection introWire)
              (str ''shorten'') (Resolved refineReply) 5 6))) =
     Some (Some [[]]) \<and>
   map_option (\<lambda>p. map_option (map section_content) (project_sections p))
     (currentProject
        (ui_state
           (handleRefine loggedIn openedStore (str ''42'') (normalizeSection introWire)
              (str ''shorten'') (Resolved refineReply) 5 6))) =
     Some (Some [str ''new''])"
proof -
  have a: "truthy (trim (str ''shorten''))" "auth_token loggedIn = Some (str ''jwt'')"
    "truthy (str ''jwt'')"
    by (simp_all add: truthy_def trim_def isWhiteSpace_def str_def loggedIn_def)
  have w: "project_sections (normalizeFetched listedWire) = Some []"
    "project_sections (normalizeFetched createdWire) = Some [normalizeSection introWire]"
    "project_id (normalizeFetched listedWire) = str ''42''"
    "project_id (normalizeFetched createdWire) = str ''42''"
    "section_id (normalizeSection introWire) = str ''12''"
    "section_revisions (normalizeSection introWire) = []"
    "rw_text refineReply = Some (str ''new'')"
    by (simp_all add: normalizeFetched_def listedWire_def createdWire_def normalizeSection_def
        introWire_def or_empty_def refineReply_def toStringNat.simps str_def)
  have u: "str ''/api/projects/42/refine'' = projectUrl (str ''42'') @ str ''/refine''"
    by (simp add: projectUrl_def str_def)
  have run: "handleRefine loggedIn openedStore (str ''42'') (normalizeSection introWire)
       (str ''shorten'') (Resolved refineReply) 5 6 =
     \<lparr>ui_state =
        \<lparr>projects = [(normalizeFetched listedWire)\<lparr>project_updatedAt := DateAt 6\<rparr>],
         currentProject =
           Some ((normalizeFetched createdWire)
                   \<lparr>project_sections :=
                      Some [(normalizeSection introWire)\<lparr>section_content := str ''new''\<rparr>],
                    project_updatedAt := DateAt 5\<rparr>)\<rparr>,
      ui_requests =
        [\<lparr>req_method = POST, req_url = str ''/api/projects/42/refine'',
          req_body = RefineBody (str ''12'') (str ''shorten'')\<rparr>],
      ui_console = [],
      ui_toasts = [ToastSuccess (str ''Content refined successfully!'')],
      ui_navigate = None\<rparr>"
    unfolding handleRefine_success [OF a openedStore_defined] u
    by (simp add: openedStore_eq w
        updateSection_defined [OF openedStore_defined, unfolded openedStore_eq]
        withSections_def applyUpdates_def noUpdates_def)
  show ?thesis
    unfolding run by (simp add: openedStore_eq w)
qed


section \<open>The bearer token of a request\<close>

text \<open>
  C6, as stated, fails for a token that is not \<open>null\<close> but empty: the interceptor tests
  \<open>token &&\<close>, and the request leaves without an \<open>Authorization\<close> header.
\<close>

theorem interceptor_empty_token_counterexample:
  "auth_token emptyTokenAuth \<noteq> None \<and>
   requestInterceptor emptyTokenAuth jsonConfig = jsonConfig \<and>
   config_headers jsonConfig = Some [str ''Content-Type'' \<mapsto> str ''application/json''] \<and>
   [str ''Content-Type'' \<mapsto> str ''application/json''] (str ''Authorization'') = None"
  by (simp add: requestInterceptor_def emptyTokenAuth_def jsonConfig_def truthy_def str_def)

text \<open>
  C6, amended: when the auth store holds a token that is not empty and the request
  configuration has headers, the request carries \<open>Authorization: Bearer <token>\<close> and its
  other headers unchanged; with no token, an empty token or no headers the configuration
  passes unchanged.
\<close>

theorem interceptor_sets_bearer_header:
  "(auth_token authState = Some token \<and> token \<noteq> [] \<and> config_headers config = Some headers \<longrightarrow>
      requestInterceptor authState config =
        config\<lparr>config_headers :=
          Some (headers(str ''Authorization'' \<mapsto> str ''Bearer '' @ token))\<rparr> \<and>
      (\<exists>headers'. config_headers (requestInterceptor authState config) = Some headers' \<and>
         headers' (str ''Authorization'') = Some (str ''Bearer '' @ token) \<and>
         (\<forall>name. name \<noteq> str ''Authorization'' \<longrightarrow> headers' name = headers name))) \<and>
   (auth_token authState = None \<or> auth_token authState = Some [] \<or> config_headers config = None \<longrightarrow>
      requestInterceptor authState config = config)"
  by (auto simp: requestInterceptor_def truthy_def split: option.splits)

theorem interceptor_sets_bearer_header_witness:
  "auth_token loggedIn = Some (str ''jwt'') \<and> str ''jwt'' \<noteq> [] \<and>
   config_headers jsonConfig = Some [str ''Content-Type'' \<mapsto> str ''application/json''] \<and>
   requestInterceptor loggedIn jsonConfig =
     \<lparr>config_headers =
        Some [str ''Content-Type'' \<mapsto> str ''application/json'',
              str ''Authorization'' \<mapsto> str ''Bearer jwt'']\<rparr> \<and>
   auth_token emptyTokenAuth = Some [] \<and>
   requestInterceptor emptyTokenAuth jsonConfig = jsonConfig"
proof -
  have a: "auth_token loggedIn = Some (str ''jwt'')" "str ''jwt'' \<noteq> []"
    "config_headers jsonConfig = Some [str ''Content-Type'' \<mapsto> str ''application/json'']"
    "auth_token emptyTokenAuth = Some []"
    by (simp_all add: loggedIn_def jsonConfig_def emptyTokenAuth_def str_def)
  have "requestInterceptor loggedIn jsonConfig =
      jsonConfig\<lparr>config_headers :=
        Some ([str ''Content-Type'' \<mapsto> str ''application/json'']
              (str ''Authorization'' \<mapsto> str ''Bearer '' @ str ''jwt''))\<rparr>"
    using interceptor_sets_bearer_header [of loggedIn "str ''jwt''" jsonConfig] a by blast
  moreover have "requestInterceptor emptyTokenAuth jsonConfig = jsonConfig"
    using interceptor_sets_bearer_header [of emptyTokenAuth _ jsonConfig] a by blast
  ultimately show ?thesis
    using a by (simp add: jsonConfig_def str_def)
qed


section \<open>The scaffold of a new project\<close>

lemma projectSections_props:
  "map section_id (projectSections v) = map ws_id v \<and>
   map section_title (projectSections v) = map ws_title v \<and>
   map section_order (projectSections v) = [0..<length v] \<and>
   map section_content (projectSections v) = replicate (length v) []"
proof -
  have o: "map section_order (projectSections v) = map fst (enumerate 0 v)"
    by (simp add: projectSections_def case_prod_unfold comp_def)
  have c: "map section_content (projectSections v) = replicate (length v) []"
    by (simp add: projectSections_def case_prod_unfold comp_def map_replicate_const)
  have s: "map (\<lambda>x. f (snd x)) (enumerate n v) = map f v" for f :: "WizardSection \<Rightarrow> jsstring" and n
    by (induction v arbitrary: n) simp_all
  have i: "map section_id (projectSections v) = map ws_id v"
    "map section_title (projectSections v) = map ws_title v"
    by (simp_all add: projectSections_def case_prod_unfold comp_def s)
  show ?thesis
    using o c i by (simp add: map_fst_enumerate)
qed

lemma validSections_empty_iff:
  "validSections secs = [] \<longleftrightarrow> list_all (\<lambda>s. trim (ws_title s) = []) secs"
  by (simp add: validSections_def filter_empty_conv truthy_def list_all_iff)

text \<open>
  C7: creation is refused, with nothing sent, exactly when no section of the wizard has a
  title that is non-empty once trimmed. Otherwise the sections sent are the wizard's sections
  with such a title, in the order displayed, each with its id and title, empty content, and
  its position among them as order: the orders are \<open>0, ..., n - 1\<close>, each once.
\<close>

theorem created_scaffold_is_dense:
  "(validSections (wiz_sections wizard) = [] \<longleftrightarrow>
      list_all (\<lambda>s. trim (ws_title s) = []) (wiz_sections wizard)) \<and>
   (validSections (wiz_sections wizard) = [] \<longrightarrow>
      handleCreate wizard state res =
        \<lparr>ui_state = state, ui_requests = [], ui_console = [],
         ui_toasts = [ToastError (str ''Please add at least one section'')],
         ui_navigate = None\<rparr>) \<and>
   (validSections (wiz_sections wizard) \<noteq> [] \<longrightarrow>
      (\<exists>scaffold.
         ui_requests (handleCreate wizard state res) =
           [\<lparr>req_method = POST, req_url = str ''/api/projects/'',
             req_body = ProjectBody
               \<lparr>new_title = wiz_title wizard, new_docType = wiz_docType wizard,
                new_topic = wiz_topic wizard, new_sections = Some scaffold\<rparr>\<rparr>] \<and>
         map section_id scaffold = map ws_id (validSections (wiz_sections wizard)) \<and>
         map section_title scaffold = map ws_title (validSections (wiz_sections wizard)) \<and>
         validSections (wiz_sections wizard) =
           filter (\<lambda>s. trim (ws_title s) \<noteq> []) (wiz_sections wizard) \<and>
         map section_content scaffold = replicate (length scaffold) [] \<and>
         map section_order scaffold = [0..<length scaffold] \<and>
         distinct (map section_order scaffold)))"
proof -
  have refused: "handleCreate wizard state res =
        \<lparr>ui_state = state, ui_requests = [], ui_console = [],
         ui_toasts = [ToastError (str ''Please add at least one section'')],
         ui_navigate = None\<rparr>"
    if "validSections (wiz_sections wizard) = []"
    using that by (simp add: handleCreate_def)
  have requests: "ui_requests (handleCreate wizard state res) =
           [\<lparr>req_method = POST, req_url = str ''/api/projects/'',
             req_body = ProjectBody
               \<lparr>new_title = wiz_title wizard, new_docType = wiz_docType wizard,
                new_topic = wiz_topic wizard,
                new_sections = Some (projectSections (validSections (wiz_sections wizard)))\<rparr>\<rparr>]"
    if "validSections (wiz_sections wizard) \<noteq> []"
    using that by (cases res) (simp_all add: handleCreate_def addProject_def Let_def)
  have l: "length (projectSections v) = length v" for v
    by (simp add: projectSections_def)
  have "\<exists>scaffold.
         ui_requests (handleCreate wizard state res) =
           [\<lparr>req_method = POST, req_url = str ''/api/projects/'',
             req_body = ProjectBody
               \<lparr>new_title = wiz_title wizard, new_docType = wiz_docType wizard,
                new_topic = wiz_topic wizard, new_sections = Some scaffold\<rparr>\<rparr>] \<and>
         map section_id scaffold = map ws_id (validSections (wiz_sections wizard)) \<and>
         map section_title scaffold = map ws_title (validSections (wiz_sections wizard)) \<and>
         validSections (wiz_sections wizard) =
           filter (\<lambda>s. trim (ws_title s) \<noteq> []) (wiz_sections wizard) \<and>
         map section_content scaffold = replicate (length scaffold) [] \<and>
         map section_order scaffold = [0..<length scaffold] \<and>
         distinct (map section_order scaffold)"
    if "validSections (wiz_sections wizard) \<noteq> []"
    using requests [OF that] projectSections_props [of "validSections (wiz_sections wizard)"]
    by (intro exI [of _ "projectSections (validSections (wiz_sections wizard))"])
      (simp add: l validSections_def truthy_def)
  then show ?thesis
    using refused validSections_empty_iff by blast
qed

theorem created_scaffold_is_dense_witness:
  "validSections (wiz_sections reportWizard) \<noteq> [] \<and>
   (\<exists>scaffold.
      ui_requests (handleCreate reportWizard twoProjects (Resolved createdWire)) =
        [\<lparr>req_method = POST, req_url = str ''/api/projects/'',
          req_body = ProjectBody
            \<lparr>new_title = str ''Report'', new_docType = Docx, new_topic = str ''x'',
             new_sections = Some scaffold\<rparr>\<rparr>] \<and>
      map section_id scaffold = [str ''1'', str ''3''] \<and>
      map section_title scaffold = [str ''Introduction'', str '' Results''] \<and>
      map section_content scaffold = [[], []] \<and>
      map section_order scaffold = [0, 1]) \<and>
   validSections (wiz_sections blankWizard) = [] \<and>
   ui_requests (handleCreate blankWizard twoProjects (Resolved createdWire)) = []"
proof -
  have v: "validSections (wiz_sections reportWizard) =
      [\<lparr>ws_id = str ''1'', ws_title = str ''Introduction''\<rparr>,
       \<lparr>ws_id = str ''3'', ws_title = str '' Results''\<rparr>]"
    by (simp add: reportWizard_def outline_def validSections_def truthy_def trim_def
        isWhiteSpace_def str_def)
  have e: "validSections (wiz_sections blankWizard) = []"
    by (simp add: blankWizard_def validSections_def truthy_def trim_def isWhiteSpace_def str_def)
  have w: "wiz_title reportWizard = str ''Report''" "wiz_docType reportWizard = Docx"
    "wiz_topic reportWizard = str ''x''"
    by (simp_all add: reportWizard_def)
  obtain scaffold where s:
    "ui_requests (handleCreate reportWizard twoProjects (Resolved createdWire)) =
           [\<lparr>req_method = POST, req_url = str ''/api/projects/'',
             req_body = ProjectBody
               \<lparr>new_title = str ''Report'', new_docType = Docx,
                new_topic = str ''x'', new_sections = Some scaffold\<rparr>\<rparr>]"
    "map section_id scaffold = [str ''1'', str ''3'']"
    "map section_title scaffold = [str ''Introduction'', str '' Results'']"
    "map section_content scaffold = replicate (length scaffold) []"
    "map section_order scaffold = [0..<length scaffold]"
    using created_scaffold_is_dense [of reportWizard twoProjects "Resolved createdWire"] v w
    by auto
  have n: "length scaffold = 2"
    using arg_cong [OF s(2), of length] by simp
  have "map section_content scaffold = [[], []]" "map section_order scaffold = [0, 1]"
    using s(4,5) by (simp_all add: n numeral_2_eq_2 upt_rec)
  moreover have "ui_requests (handleCreate blankWizard twoProjects (Resolved createdWire)) = []"
    using created_scaffold_is_dense [of blankWizard twoProjects "Resolved createdWire"] e
    by simp
  ultimately show ?thesis
    using v e s(1-3) by auto
qed

end
